theory Spec2Isabelle
  imports Complex_Main
begin

section \<open>JavaScript values used by the analytics service\<close>

text \<open>
  Strings are byte lists. A value that may be \<^verbatim>\<open>undefined\<close> or \<^verbatim>\<open>null\<close> is an
  \<open>option\<close>; the code never distinguishes the two (it only tests truthiness or uses
  optional chaining). A thrown exception is a value \<open>JsError name message\<close>, and a
  computation that may throw returns \<open>js_error + 'a\<close>.
\<close>

datatype js_error = JsError (err_name: string) (err_message: string)

text \<open>A JavaScript number as \<^verbatim>\<open>parseInt\<close> and the arithmetic on it produce it: an
  integer-valued double, an infinity or \<^verbatim>\<open>NaN\<close>. Negative zero is \<open>Num 0\<close>: JSON and the
  store read both zeros alike.\<close>

datatype jsnum = Num int | NaN | PosInfinity | NegInfinity

text \<open>A JavaScript string given by its UTF-16 code units, as \<^verbatim>\<open>parseInt\<close> reads it;
  \<open>js_str\<close> is the string of an ASCII literal.\<close>

type_synonym js_string = "nat list"

definition js_str :: "string \<Rightarrow> js_string" where
  "js_str s = map of_char s"

definition truthy :: "string option \<Rightarrow> bool" where
  "truthy v = (case v of None \<Rightarrow> False | Some s \<Rightarrow> s \<noteq> [])"

text \<open>\<^verbatim>\<open>v || null\<close> on a string.\<close>

definition or_null :: "string option \<Rightarrow> string option" where
  "or_null v = (if truthy v then v else None)"

text \<open>\<^verbatim>\<open>v || null\<close> on a number: \<open>0\<close> is falsy.\<close>

definition or_null_num :: "real option \<Rightarrow> real option" where
  "or_null_num v = (case v of None \<Rightarrow> None | Some x \<Rightarrow> if x = 0 then None else Some x)"

definition startsWith :: "string \<Rightarrow> string \<Rightarrow> bool" where
  "startsWith s p = (take (length p) s = p)"

text \<open>\<^verbatim>\<open>s.split(c)\<close> for a one-character separator: never empty, \<open>''''\<close> gives \<open>['''']\<close>.\<close>

fun split_on :: "char \<Rightarrow> string \<Rightarrow> string list" where
  "split_on c [] = [[]]"
| "split_on c (x # xs) =
     (if x = c then [] # split_on c xs
      else (case split_on c xs of [] \<Rightarrow> [[x]] | y # ys \<Rightarrow> (x # y) # ys))"

text \<open>\<^verbatim>\<open>xs[i]\<close>: \<^verbatim>\<open>undefined\<close> out of range.\<close>

definition at_index :: "'a list \<Rightarrow> nat \<Rightarrow> 'a option" where
  "at_index xs i = (if i < length xs then Some (xs ! i) else None)"

text \<open>The letter case folding of a pattern's \<^verbatim>\<open>i\<close> flag, as far as it can reach an
  ASCII letter: only ASCII letters fold onto ASCII letters.\<close>

definition ascii_lower :: "char \<Rightarrow> char" where
  "ascii_lower c =
     (let n = (of_char c :: nat) in if 65 \<le> n \<and> n \<le> 90 then char_of (n + 32) else c)"

definition toLowerCase :: "string \<Rightarrow> string" where
  "toLowerCase s = map ascii_lower s"

text \<open>The number of binary digits of a natural number.\<close>

fun bit_length :: "nat \<Rightarrow> nat" where
  "bit_length n = (if n = 0 then 0 else Suc (bit_length (n div 2)))"

declare bit_length.simps [simp del]

text \<open>The Number value of an integer: the nearest double, a tie going to the even
  significand, and an infinity once the rounded value reaches \<open>2^1024\<close>. An integer
  below \<open>2^53\<close> in absolute
  value is its own double.\<close>

definition to_double :: "int \<Rightarrow> jsnum" where
  "to_double n =
     (let a = nat \<bar>n\<bar>;
          e = bit_length a - 53;
          q = a div 2 ^ e;
          r = a mod 2 ^ e;
          q' = (if 2 * r > 2 ^ e \<or> (2 * r = 2 ^ e \<and> odd q) then q + 1 else q);
          m = q' * 2 ^ e
      in if m \<ge> 2 ^ 1024 then (if n < 0 then NegInfinity else PosInfinity)
         else Num (sgn n * int m))"

definition is_digit :: "nat \<Rightarrow> bool" where
  "is_digit u = (48 \<le> u \<and> u \<le> 57)"

text \<open>The code units \<^verbatim>\<open>parseInt\<close> skips at the start: white space and line terminators
  (TAB, LF, VT, FF, CR, SP, NBSP, U+1680, U+2000 to U+200A, U+2028, U+2029, U+202F,
  U+205F, U+3000, U+FEFF).\<close>

definition is_white_space :: "nat \<Rightarrow> bool" where
  "is_white_space u =
     (u = 9 \<or> u = 10 \<or> u = 11 \<or> u = 12 \<or> u = 13 \<or> u = 32 \<or> u = 160 \<or> u = 5760 \<or>
      (8192 \<le> u \<and> u \<le> 8202) \<or> u = 8232 \<or> u = 8233 \<or> u = 8239 \<or> u = 8287 \<or>
      u = 12288 \<or> u = 65279)"

definition digits_value :: "js_string \<Rightarrow> nat" where
  "digits_value ds = foldl (\<lambda>acc u. 10 * acc + (u - 48)) 0 ds"

text \<open>\<^verbatim>\<open>parseInt(s, 10)\<close>: leading white space, an optional sign (\<open>-\<close> is 45, \<open>+\<close> is 43),
  then the longest run of decimal digits; \<^verbatim>\<open>NaN\<close> when there is no digit. What follows
  the digits is ignored. The result is the double nearest to the integer the digits
  denote (the standard lets an implementation approximate beyond 20 significant digits;
  V8 rounds the exact value).\<close>

definition parseInt10 :: "js_string \<Rightarrow> jsnum" where
  "parseInt10 s =
     (let t = dropWhile is_white_space s;
          neg = (case t of [] \<Rightarrow> False | u # _ \<Rightarrow> u = 45);
          v = (case t of [] \<Rightarrow> [] | u # r \<Rightarrow> if u = 45 \<or> u = 43 then r else t);
          z = takeWhile is_digit v
      in if z = [] then NaN
         else to_double ((if neg then - 1 else 1) * int (digits_value z)))"

text \<open>\<^verbatim>\<open>Math.min(a, b)\<close>: \<^verbatim>\<open>NaN\<close> when either argument is.\<close>

fun Math_min :: "jsnum \<Rightarrow> jsnum \<Rightarrow> jsnum" where
  "Math_min NaN b = NaN"
| "Math_min a NaN = NaN"
| "Math_min NegInfinity b = NegInfinity"
| "Math_min a NegInfinity = NegInfinity"
| "Math_min PosInfinity b = b"
| "Math_min a PosInfinity = a"
| "Math_min (Num a) (Num b) = Num (min a b)"

section \<open>Configuration (config.js)\<close>

record environment =
  JWT_SECRET :: "string option"
  INTERNAL_API_KEY :: "string option"

record config =
  jwtSecret :: string
  internalApiKey :: string

text \<open>\<^verbatim>\<open>process.env.X || 'default'\<close>.\<close>

definition or_default :: "string option \<Rightarrow> string \<Rightarrow> string" where
  "or_default v d = (case v of None \<Rightarrow> d | Some s \<Rightarrow> if s = [] then d else s)"

definition load_config :: "environment \<Rightarrow> config" where
  "load_config env =
     \<lparr> jwtSecret = or_default (JWT_SECRET env) ''your-super-secret-jwt-key-change-in-production'',
       internalApiKey =
         or_default (INTERNAL_API_KEY env) ''internal-service-key-change-in-production'' \<rparr>"

section \<open>Requests and responses\<close>

text \<open>The headers, body fields, query parameters and route parameter the routes read.
  Body fields are strings when present (the documented request schema). A query
  parameter is the string \<^verbatim>\<open>parseInt\<close> converts it to, as code units.\<close>

record req_headers =
  hdr_authorization :: "string option"
  hdr_x_internal_api_key :: "string option"
  hdr_x_forwarded_for :: "string option"
  hdr_user_agent :: "string option"
  hdr_referer :: "string option"

record req_body =
  short_code :: "string option"
  original_url :: "string option"

record req_query =
  q_limit :: "js_string option"
  q_offset :: "js_string option"
  q_days :: "js_string option"

record auth_user =
  userId :: "string option"

record request =
  headers :: req_headers
  remoteAddress :: "string option"
  body :: req_body
  query :: req_query
  param_shortCode :: string
  isInternalService :: bool
  user :: "auth_user option"


section \<open>The click record (models/Click.js)\<close>

text \<open>\<open>timestamp\<close> is a date in milliseconds since the epoch; the day of a bucket is
  \<open>timestamp div 86400000\<close>, which determines the \<^verbatim>\<open>%Y-%m-%d\<close> string of the instant
  (UTC) and is ordered like it.\<close>

record click =
  click_id :: string
  shortCode :: string
  originalUrl :: string
  timestamp :: int
  userAgent :: "string option"
  referer :: "string option"
  ipAddress :: "string option"
  country :: "string option"
  countryCode :: "string option"
  city :: "string option"
  region :: "string option"
  latitude :: "real option"
  longitude :: "real option"
  timezone :: "string option"

text \<open>The projection \<^verbatim>\<open>select('timestamp userAgent referer country city')\<close>.\<close>

record click_view =
  cv_id :: string
  cv_timestamp :: int
  cv_userAgent :: "string option"
  cv_referer :: "string option"
  cv_country :: "string option"
  cv_city :: "string option"

record stats_body =
  sb_shortCode :: string
  totalClicks :: nat
  last24Hours :: nat
  last7Days :: nat
  lastClickAt :: "int option"

record history_body =
  hb_shortCode :: string
  hb_total :: nat
  hb_limit :: jsnum
  hb_offset :: jsnum
  hb_clicks :: "click_view list"

record daily_body =
  db_shortCode :: string
  db_days :: jsnum
  db_data :: "(int \<times> nat) list"

record geo_body =
  gb_shortCode :: string
  gb_totalClicks :: nat
  gb_totalWithLocation :: nat
  gb_countries :: "((string option \<times> string option) \<times> nat) list"
  gb_cities :: "((string option \<times> string option) \<times> nat) list"

datatype resp_body =
  ErrorBody string
| TrackedBody string string
| StatsBody stats_body
| HistoryBody history_body
| DailyBody daily_body
| GeoBody geo_body

record response =
  status :: nat
  payload :: resp_body

definition error_response :: "nat \<Rightarrow> string \<Rightarrow> response" where
  "error_response code msg = \<lparr> status = code, payload = ErrorBody msg \<rparr>"

section \<open>Access control (middleware/auth.js)\<close>

text \<open>A middleware either answers the request or calls \<^verbatim>\<open>next()\<close> with the request
  it may have annotated.\<close>

datatype mw_result = Respond response | Next request

text \<open>\<^verbatim>\<open>jwt.verify(token, secret)\<close> belongs to the jsonwebtoken package; it is a
  parameter of the model. It returns the decoded payload or throws.\<close>

record jwt_payload =
  payload_userId :: "string option"

type_synonym jwt_verify = "string option \<Rightarrow> string \<Rightarrow> js_error + jwt_payload"

definition verifyInternalApiKey :: "config \<Rightarrow> request \<Rightarrow> bool" where
  "verifyInternalApiKey cfg req =
     (let apiKey = hdr_x_internal_api_key (headers req)
      in truthy apiKey \<and> apiKey = Some (internalApiKey cfg))"

definition requireAuth :: "config \<Rightarrow> jwt_verify \<Rightarrow> request \<Rightarrow> mw_result" where
  "requireAuth cfg verify req =
     (case hdr_authorization (headers req) of
        None \<Rightarrow> Respond (error_response 401 ''Authentication required'')
      | Some authHeader \<Rightarrow>
          if authHeader = [] \<or> \<not> startsWith authHeader ''Bearer ''
          then Respond (error_response 401 ''Authentication required'')
          else
            let token = at_index (split_on CHR '' '' authHeader) 1 in
            if jwtSecret cfg = []
            then Respond (error_response 500 ''Server configuration error'')
            else
              (case verify token (jwtSecret cfg) of
                 Inr decoded \<Rightarrow>
                   Next (req\<lparr> user := Some \<lparr> userId = payload_userId decoded \<rparr> \<rparr>)
               | Inl error \<Rightarrow>
                   if err_name error = ''JsonWebTokenError''
                   then Respond (error_response 401 ''Invalid token'')
                   else if err_name error = ''TokenExpiredError''
                   then Respond (error_response 401 ''Token expired'')
                   else Respond (error_response 500 ''Authentication failed'')))"

definition allowInternalService :: "config \<Rightarrow> jwt_verify \<Rightarrow> request \<Rightarrow> mw_result" where
  "allowInternalService cfg verify req =
     (if verifyInternalApiKey cfg req then Next (req\<lparr> isInternalService := True \<rparr>)
      else requireAuth cfg verify req)"

section \<open>Rate limiting (middleware/rateLimit.js)\<close>

text \<open>The counters live in the express-rate-limit package. \<open>hits\<close> is the number of
  requests it has counted for this caller in the current window, this one included;
  the package answers 429 when that exceeds \<open>max\<close>. A skipped request is not counted.\<close>

definition apiLimiter :: "nat \<Rightarrow> request \<Rightarrow> mw_result" where
  "apiLimiter hits req =
     (if isInternalService req then Next req
      else if hits > 100
      then Respond (error_response 429 ''Too many requests, please try again later.'')
      else Next req)"

definition trackLimiter :: "nat \<Rightarrow> request \<Rightarrow> mw_result" where
  "trackLimiter hits req =
     (if isInternalService req then Next req
      else if hits > 60 then Respond (error_response 429 ''Too many tracking requests.'')
      else Next req)"

section \<open>Geolocation (utils/geolocation.js)\<close>

text \<open>What \<^verbatim>\<open>reader.city(ip)\<close> of the MaxMind package returns, flattened: each field is
  the value at the end of the optional chain the code follows
  (\<^verbatim>\<open>response.country?.names?.en\<close>, ...), \<open>None\<close> when any link is missing. The reader
  is \<open>None\<close> while no database is loaded.\<close>

record city_response =
  country_names_en :: "string option"
  country_isoCode :: "string option"
  city_names_en :: "string option"
  subdivision0_names_en :: "string option"
  location_latitude :: "real option"
  location_longitude :: "real option"
  location_timeZone :: "string option"

type_synonym geo_reader = "(string \<Rightarrow> js_error + city_response) option"

record geo_data =
  g_country :: "string option"
  g_countryCode :: "string option"
  g_city :: "string option"
  g_region :: "string option"
  g_latitude :: "real option"
  g_longitude :: "real option"
  g_timezone :: "string option"

text \<open>The seven patterns of \<open>privateRanges\<close>, in order.\<close>

definition re_10 :: "string \<Rightarrow> bool" where
  "re_10 ip = startsWith ip ''10.''"

definition re_172 :: "string \<Rightarrow> bool" where
  "re_172 ip =
     (startsWith ip ''172.'' \<and>
      (case drop 4 ip of
         a # b # c # _ \<Rightarrow>
           ((a = CHR ''1'' \<and> b \<in> set ''6789'') \<or>
            (a = CHR ''2'' \<and> b \<in> set ''0123456789'') \<or>
            (a = CHR ''3'' \<and> b \<in> set ''01'')) \<and> c = CHR ''.''
       | _ \<Rightarrow> False))"

definition re_192_168 :: "string \<Rightarrow> bool" where
  "re_192_168 ip = startsWith ip ''192.168.''"

definition re_127 :: "string \<Rightarrow> bool" where
  "re_127 ip = startsWith ip ''127.''"

definition re_localhost :: "string \<Rightarrow> bool" where
  "re_localhost ip = (toLowerCase ip = ''localhost'')"

definition re_loopback6 :: "string \<Rightarrow> bool" where
  "re_loopback6 ip = (ip = ''::1'')"

definition re_fe80 :: "string \<Rightarrow> bool" where
  "re_fe80 ip = startsWith (toLowerCase ip) ''fe80:''"

definition privateRanges :: "(string \<Rightarrow> bool) list" where
  "privateRanges = [re_10, re_172, re_192_168, re_127, re_localhost, re_loopback6, re_fe80]"

definition isPrivateIP :: "string option \<Rightarrow> bool" where
  "isPrivateIP ip =
     (case ip of
        None \<Rightarrow> True
      | Some a \<Rightarrow> if a = [] then True else list_ex (\<lambda>regex. regex a) privateRanges)"

text \<open>The body of the \<^verbatim>\<open>try\<close> block: it throws what \<^verbatim>\<open>reader.city\<close> throws.\<close>

definition lookupIP_try :: "(string \<Rightarrow> js_error + city_response) \<Rightarrow> string \<Rightarrow> js_error + geo_data" where
  "lookupIP_try city_fn ip =
     (case city_fn ip of
        Inl e \<Rightarrow> Inl e
      | Inr response \<Rightarrow>
          Inr \<lparr> g_country = or_null (country_names_en response),
                g_countryCode = or_null (country_isoCode response),
                g_city = or_null (city_names_en response),
                g_region = or_null (subdivision0_names_en response),
                g_latitude = or_null_num (location_latitude response),
                g_longitude = or_null_num (location_longitude response),
                g_timezone = or_null (location_timeZone response) \<rparr>)"

text \<open>\<open>lookupIP\<close> returns \<open>Inl\<close> when an exception leaves the function, \<open>Inr None\<close> for
  \<^verbatim>\<open>null\<close>. The \<^verbatim>\<open>catch\<close> block only logs (when the error is not an
  \<^verbatim>\<open>AddressNotFoundError\<close>) and returns \<^verbatim>\<open>null\<close>.\<close>

definition lookupIP :: "geo_reader \<Rightarrow> string option \<Rightarrow> js_error + geo_data option" where
  "lookupIP reader ip =
     (case (reader, ip) of
        (Some city_fn, Some a) \<Rightarrow>
          if a = [] then Inr None
          else if isPrivateIP ip then Inr None
          else
            (case lookupIP_try city_fn a of
               Inr g \<Rightarrow> Inr (Some g)
             | Inl error \<Rightarrow> Inr None)
      | _ \<Rightarrow> Inr None)"

section \<open>The click store (Mongoose model \<open>Click\<close>)\<close>

text \<open>The collection is the list of its documents in insertion order. Mongoose and the
  MongoDB driver are external; their documented behaviour is written out here. Every
  operation rejects while the connection is down.\<close>

record store =
  docs :: "click list"
  connected :: bool

definition db_error :: js_error where
  "db_error = JsError ''MongoNetworkError'' ''connection lost''"

definition validation_error :: js_error where
  "validation_error = JsError ''ValidationError'' ''Click validation failed''"

definition bad_value :: js_error where
  "bad_value = JsError ''MongoServerError'' ''BadValue''"

text \<open>\<^verbatim>\<open>await\<close> inside a \<^verbatim>\<open>try\<close> block: a rejection skips the rest.\<close>

definition and_then :: "js_error + 'a \<Rightarrow> ('a \<Rightarrow> js_error + 'b) \<Rightarrow> js_error + 'b" where
  "and_then m f = (case m of Inl e \<Rightarrow> Inl e | Inr x \<Rightarrow> f x)"

text \<open>The \<^verbatim>\<open>catch\<close> block of a read handler: a generic 500.\<close>

definition catch_500 :: "string \<Rightarrow> js_error + response \<Rightarrow> response" where
  "catch_500 msg m = (case m of Inl e \<Rightarrow> error_response 500 msg | Inr r \<Rightarrow> r)"

definition countDocuments :: "store \<Rightarrow> (click \<Rightarrow> bool) \<Rightarrow> js_error + nat" where
  "countDocuments st flt = (if connected st then Inr (length (filter flt (docs st))) else Inl db_error)"

text \<open>\<^verbatim>\<open>sort({ timestamp: -1 })\<close>; the order among equal timestamps is the store's choice.\<close>

definition sort_newest_first :: "click list \<Rightarrow> click list" where
  "sort_newest_first cs = rev (sort_key timestamp cs)"

text \<open>\<^verbatim>\<open>Click.findOne({ shortCode }).sort({ timestamp: -1 }).select('timestamp')\<close>.\<close>

definition findOne_newest :: "store \<Rightarrow> string \<Rightarrow> js_error + int option" where
  "findOne_newest st sc =
     (if connected st
      then Inr (case sort_newest_first (filter (\<lambda>c. shortCode c = sc) (docs st)) of
                  [] \<Rightarrow> None | c # _ \<Rightarrow> Some (timestamp c))
      else Inl db_error)"

definition select_view :: "click \<Rightarrow> click_view" where
  "select_view c =
     \<lparr> cv_id = click_id c, cv_timestamp = timestamp c, cv_userAgent = userAgent c,
       cv_referer = referer c, cv_country = country c, cv_city = city c \<rparr>"

text \<open>\<^verbatim>\<open>Click.find({ shortCode }).sort({ timestamp: -1 }).skip(k).limit(l).select(...)\<close>.
  The server rejects a negative skip and a skip or limit that is not a finite number; a limit of
  \<open>0\<close> means no limit, and a negative limit \<open>-n\<close> is read as \<open>n\<close>.\<close>

definition find_page :: "store \<Rightarrow> string \<Rightarrow> jsnum \<Rightarrow> jsnum \<Rightarrow> js_error + click_view list" where
  "find_page st sc skip_arg limit_arg =
     (if \<not> connected st then Inl db_error
      else
        (case (skip_arg, limit_arg) of
           (Num k, Num l) \<Rightarrow>
             if k < 0 then Inl bad_value
             else
               let found = sort_newest_first (filter (\<lambda>c. shortCode c = sc) (docs st));
                   skipped = drop (nat k) found
               in Inr (map select_view (if l = 0 then skipped else take (nat \<bar>l\<bar>) skipped))
         | _ \<Rightarrow> Inl bad_value))"

text \<open>\<^verbatim>\<open>$group\<close> with \<^verbatim>\<open>count: { $sum: 1 }\<close>: one entry per distinct key.\<close>

definition group_count :: "'k list \<Rightarrow> ('k \<times> nat) list" where
  "group_count ks = map (\<lambda>k. (k, count_list ks k)) (remdups ks)"

text \<open>A date built from a number: invalid (\<open>NaN\<close>) when the number is not finite or lies
  outside the range of \<^verbatim>\<open>Date\<close>. The driver writes an invalid date as the epoch.\<close>

definition new_Date :: "jsnum \<Rightarrow> jsnum" where
  "new_Date t =
     (case t of
        Num ms \<Rightarrow> if \<bar>ms\<bar> \<le> 8640000000000000 then Num ms else NaN
      | _ \<Rightarrow> NaN)"

definition bson_date :: "jsnum \<Rightarrow> int" where
  "bson_date d = (case d of Num ms \<Rightarrow> ms | _ \<Rightarrow> 0)"

text \<open>The daily pipeline: \<^verbatim>\<open>$match\<close>, \<^verbatim>\<open>$group\<close> by day, \<^verbatim>\<open>$sort: { _id: 1 }\<close>.\<close>

definition aggregate_daily :: "store \<Rightarrow> string \<Rightarrow> jsnum \<Rightarrow> js_error + (int \<times> nat) list" where
  "aggregate_daily st sc startDate =
     (if connected st
      then Inr (sort_key fst (group_count (map (\<lambda>c. timestamp c div 86400000)
                  (filter (\<lambda>c. shortCode c = sc \<and> timestamp c \<ge> bson_date startDate) (docs st)))))
      else Inl db_error)"

text \<open>A geographic pipeline: \<^verbatim>\<open>$match\<close>, \<^verbatim>\<open>$group\<close> by \<open>key\<close>, \<^verbatim>\<open>$sort: { count: -1 }\<close>,
  \<^verbatim>\<open>$limit: n\<close>.\<close>

definition aggregate_top ::
  "store \<Rightarrow> (click \<Rightarrow> bool) \<Rightarrow> (click \<Rightarrow> 'k) \<Rightarrow> nat \<Rightarrow> js_error + ('k \<times> nat) list" where
  "aggregate_top st flt key n =
     (if connected st
      then Inr (take n (sort_key (\<lambda>(k, cnt). - int cnt)
                  (group_count (map key (filter flt (docs st))))))
      else Inl db_error)"

text \<open>\<^verbatim>\<open>click.save()\<close>: the schema requires \<open>shortCode\<close> and \<open>originalUrl\<close>.\<close>

definition save :: "store \<Rightarrow> click \<Rightarrow> js_error + store" where
  "save st c =
     (if shortCode c = [] \<or> originalUrl c = [] then Inl validation_error
      else if connected st then Inr (st\<lparr> docs := docs st @ [c] \<rparr>)
      else Inl db_error)"

section \<open>The client address Express reports\<close>

text \<open>\<open>index.js\<close> sets \<^verbatim>\<open>app.set('trust proxy', true)\<close>. Express then computes
  \<^verbatim>\<open>req.ip\<close> (package proxy-addr) as the last element of the socket's peer address
  followed by the addresses of the \<^verbatim>\<open>X-Forwarded-For\<close> header read right to left. The
  header is cut at commas, each piece loses the spaces around it, and empty pieces are
  dropped.\<close>

definition trim_spaces :: "string \<Rightarrow> string" where
  "trim_spaces s =
     rev (dropWhile (\<lambda>c. c = CHR '' '') (rev (dropWhile (\<lambda>c. c = CHR '' '') s)))"

definition forwarded_for_entries :: "string \<Rightarrow> string list" where
  "forwarded_for_entries h = filter (\<lambda>e. e \<noteq> []) (map trim_spaces (split_on CHR '','' h))"

definition req_ip :: "request \<Rightarrow> string option" where
  "req_ip req =
     last (remoteAddress req #
           map Some (rev (forwarded_for_entries
             (or_default (hdr_x_forwarded_for (headers req)) []))))"

section \<open>The routes (routes.js)\<close>

text \<open>The Prometheus counters the handlers increment are not part of the modelled state;
  none of their calls throws.\<close>

text \<open>\<^verbatim>\<open>req.ip || req.headers['x-forwarded-for']?.split(',')[0] || null\<close>.\<close>

definition track_ipAddress :: "request \<Rightarrow> string option" where
  "track_ipAddress req =
     (if truthy (req_ip req) then req_ip req
      else
        or_null (case hdr_x_forwarded_for (headers req) of
                   None \<Rightarrow> None
                 | Some h \<Rightarrow> at_index (split_on CHR '','' h) 0))"

text \<open>\<open>new_id\<close> is the identifier Mongoose generates for the document, \<open>now\<close> the clock
  reading of the schema default \<^verbatim>\<open>Date.now\<close>.\<close>

definition new_click :: "string \<Rightarrow> int \<Rightarrow> request \<Rightarrow> string option \<Rightarrow> geo_data option \<Rightarrow> click" where
  "new_click new_id now req ip geoData =
     \<lparr> click_id = new_id,
       shortCode = or_default (short_code (body req)) [],
       originalUrl = or_default (original_url (body req)) [],
       timestamp = now,
       userAgent = or_null (hdr_user_agent (headers req)),
       referer = or_null (hdr_referer (headers req)),
       ipAddress = ip,
       country = or_null (Option.bind geoData g_country),
       countryCode = or_null (Option.bind geoData g_countryCode),
       city = or_null (Option.bind geoData g_city),
       region = or_null (Option.bind geoData g_region),
       latitude = or_null_num (Option.bind geoData g_latitude),
       longitude = or_null_num (Option.bind geoData g_longitude),
       timezone = or_null (Option.bind geoData g_timezone) \<rparr>"

definition track_handler ::
  "geo_reader \<Rightarrow> string \<Rightarrow> int \<Rightarrow> store \<Rightarrow> request \<Rightarrow> store \<times> response" where
  "track_handler reader new_id now st req =
     (if \<not> truthy (short_code (body req)) \<or> \<not> truthy (original_url (body req))
      then (st, error_response 400 ''short_code and original_url are required'')
      else
        let ip = track_ipAddress req in
        (case and_then (lookupIP reader ip)
                (\<lambda>geoData. save st (new_click new_id now req ip geoData)) of
           Inl error \<Rightarrow> (st, error_response 500 ''Failed to track click'')
         | Inr st' \<Rightarrow>
             (st', \<lparr> status = 201,
                     payload = TrackedBody ''Click tracked successfully'' new_id \<rparr>)))"

text \<open>The stats handler reads the clock twice, once for each window.\<close>

definition stats_handler :: "int \<Rightarrow> int \<Rightarrow> store \<Rightarrow> request \<Rightarrow> response" where
  "stats_handler now1 now2 st req =
     (let sc = param_shortCode req in
      catch_500 ''Failed to get stats''
        (and_then (countDocuments st (\<lambda>c. shortCode c = sc)) (\<lambda>total.
         and_then (countDocuments st
                     (\<lambda>c. shortCode c = sc \<and> timestamp c \<ge> now1 - 24 * 60 * 60 * 1000)) (\<lambda>l24.
         and_then (countDocuments st
                     (\<lambda>c. shortCode c = sc \<and> timestamp c \<ge> now2 - 7 * 24 * 60 * 60 * 1000)) (\<lambda>l7.
         and_then (findOne_newest st sc) (\<lambda>lastClick.
           Inr \<lparr> status = 200,
                 payload = StatsBody \<lparr> sb_shortCode = sc, totalClicks = total,
                   last24Hours = l24, last7Days = l7, lastClickAt = lastClick \<rparr> \<rparr>))))))"

text \<open>A query parameter with its default: \<^verbatim>\<open>const { limit = 100 } = req.query\<close> followed by
  \<^verbatim>\<open>parseInt(limit, 10)\<close>.\<close>

definition parse_param :: "js_string option \<Rightarrow> int \<Rightarrow> jsnum" where
  "parse_param v dflt = (case v of None \<Rightarrow> Num dflt | Some s \<Rightarrow> parseInt10 s)"

definition history_handler :: "store \<Rightarrow> request \<Rightarrow> response" where
  "history_handler st req =
     (let sc = param_shortCode req;
          cappedLimit = Math_min (parse_param (q_limit (query req)) 100) (Num 100);
          skip_arg = parse_param (q_offset (query req)) 0
      in catch_500 ''Failed to get history''
        (and_then (find_page st sc skip_arg cappedLimit) (\<lambda>clicks.
         and_then (countDocuments st (\<lambda>c. shortCode c = sc)) (\<lambda>total.
           Inr \<lparr> status = 200,
                 payload = HistoryBody \<lparr> hb_shortCode = sc, hb_total = total,
                   hb_limit = cappedLimit, hb_offset = skip_arg, hb_clicks = clicks \<rparr> \<rparr>))))"

text \<open>\<^verbatim>\<open>a * b\<close> and \<^verbatim>\<open>a - b\<close> on numbers: the exact result, rounded to a double.\<close>

definition times_num :: "jsnum \<Rightarrow> int \<Rightarrow> jsnum" where
  "times_num a b =
     (case a of
        Num x \<Rightarrow> to_double (x * b)
      | NaN \<Rightarrow> NaN
      | PosInfinity \<Rightarrow> if b > 0 then PosInfinity else if b < 0 then NegInfinity else NaN
      | NegInfinity \<Rightarrow> if b > 0 then NegInfinity else if b < 0 then PosInfinity else NaN)"

definition minus_num :: "int \<Rightarrow> jsnum \<Rightarrow> jsnum" where
  "minus_num a b =
     (case b of
        Num y \<Rightarrow> to_double (a - y)
      | NaN \<Rightarrow> NaN
      | PosInfinity \<Rightarrow> NegInfinity
      | NegInfinity \<Rightarrow> PosInfinity)"

definition daily_handler :: "int \<Rightarrow> store \<Rightarrow> request \<Rightarrow> response" where
  "daily_handler now st req =
     (let sc = param_shortCode req;
          cappedDays = Math_min (parse_param (q_days (query req)) 30) (Num 90);
          startDate = new_Date (minus_num now (times_num cappedDays (24 * 60 * 60 * 1000)))
      in catch_500 ''Failed to get daily stats''
        (and_then (aggregate_daily st sc startDate) (\<lambda>dailyClicks.
           Inr \<lparr> status = 200,
                 payload = DailyBody \<lparr> db_shortCode = sc, db_days = cappedDays,
                   db_data = dailyClicks \<rparr> \<rparr>)))"

definition geo_handler :: "store \<Rightarrow> request \<Rightarrow> response" where
  "geo_handler st req =
     (let sc = param_shortCode req in
      catch_500 ''Failed to get geographic stats''
        (and_then (aggregate_top st (\<lambda>c. shortCode c = sc \<and> country c \<noteq> None)
                     (\<lambda>c. (country c, countryCode c)) 20) (\<lambda>countryStats.
         and_then (aggregate_top st (\<lambda>c. shortCode c = sc \<and> city c \<noteq> None)
                     (\<lambda>c. (city c, country c)) 10) (\<lambda>cityStats.
         and_then (countDocuments st (\<lambda>c. shortCode c = sc \<and> country c \<noteq> None)) (\<lambda>withLocation.
         and_then (countDocuments st (\<lambda>c. shortCode c = sc)) (\<lambda>total.
           Inr \<lparr> status = 200,
                 payload = GeoBody \<lparr> gb_shortCode = sc, gb_totalClicks = total,
                   gb_totalWithLocation = withLocation, gb_countries = countryStats,
                   gb_cities = cityStats \<rparr> \<rparr>))))))"

text \<open>A route is its middleware chain followed by its handler. \<open>hits\<close> is the limiter's
  count for the caller (see above).\<close>

definition read_route ::
  "(request \<Rightarrow> mw_result) \<Rightarrow> nat \<Rightarrow> (request \<Rightarrow> response) \<Rightarrow> request \<Rightarrow> response" where
  "read_route auth hits handler req =
     (case auth req of
        Respond r \<Rightarrow> r
      | Next req1 \<Rightarrow>
          (case apiLimiter hits req1 of
             Respond r \<Rightarrow> r
           | Next req2 \<Rightarrow> handler req2))"

definition track_route ::
  "config \<Rightarrow> jwt_verify \<Rightarrow> nat \<Rightarrow> geo_reader \<Rightarrow> string \<Rightarrow> int \<Rightarrow> store \<Rightarrow> request
     \<Rightarrow> store \<times> response" where
  "track_route cfg verify hits reader new_id now st req =
     (case allowInternalService cfg verify req of
        Respond r \<Rightarrow> (st, r)
      | Next req1 \<Rightarrow>
          (case trackLimiter hits req1 of
             Respond r \<Rightarrow> (st, r)
           | Next req2 \<Rightarrow> track_handler reader new_id now st req2))"

definition stats_route ::
  "config \<Rightarrow> jwt_verify \<Rightarrow> nat \<Rightarrow> int \<Rightarrow> int \<Rightarrow> store \<Rightarrow> request \<Rightarrow> response" where
  "stats_route cfg verify hits now1 now2 st req =
     read_route (allowInternalService cfg verify) hits (stats_handler now1 now2 st) req"

definition history_route :: "config \<Rightarrow> jwt_verify \<Rightarrow> nat \<Rightarrow> store \<Rightarrow> request \<Rightarrow> response" where
  "history_route cfg verify hits st req =
     read_route (requireAuth cfg verify) hits (history_handler st) req"

definition daily_route ::
  "config \<Rightarrow> jwt_verify \<Rightarrow> nat \<Rightarrow> int \<Rightarrow> store \<Rightarrow> request \<Rightarrow> response" where
  "daily_route cfg verify hits now st req =
     read_route (requireAuth cfg verify) hits (daily_handler now st) req"

definition geo_route :: "config \<Rightarrow> jwt_verify \<Rightarrow> nat \<Rightarrow> store \<Rightarrow> request \<Rightarrow> response" where
  "geo_route cfg verify hits st req =
     read_route (requireAuth cfg verify) hits (geo_handler st) req"

section \<open>Notions of the specification\<close>

text \<open>The two shapes the specification allows for the geolocation of a record: all seven
  attributes set, or none.\<close>

definition geo_complete :: "click \<Rightarrow> bool" where
  "geo_complete c =
     (country c \<noteq> None \<and> countryCode c \<noteq> None \<and> city c \<noteq> None \<and> region c \<noteq> None \<and>
      latitude c \<noteq> None \<and> longitude c \<noteq> None \<and> timezone c \<noteq> None)"

definition geo_absent :: "click \<Rightarrow> bool" where
  "geo_absent c =
     (country c = None \<and> countryCode c = None \<and> city c = None \<and> region c = None \<and>
      latitude c = None \<and> longitude c = None \<and> timezone c = None)"

text \<open>The address ranges of the specification, on the octets of an IPv4 address written
  as a dotted quad (\<open>show_octet\<close> is the decimal form of a number below 256): 10/8,
  172.16/12, 192.168/16 and 127/8 are decided by the first two octets.\<close>

definition digit_char :: "nat \<Rightarrow> char" where
  "digit_char d = ''0123456789'' ! d"

definition show_octet :: "nat \<Rightarrow> string" where
  "show_octet n =
     (if n < 10 then [digit_char n]
      else if n < 100 then [digit_char (n div 10), digit_char (n mod 10)]
      else [digit_char (n div 100), digit_char (n div 10 mod 10), digit_char (n mod 10)])"

definition dotted_quad :: "nat \<Rightarrow> nat \<Rightarrow> nat \<Rightarrow> nat \<Rightarrow> string" where
  "dotted_quad a b c d =
     show_octet a @ ''.'' @ show_octet b @ ''.'' @ show_octet c @ ''.'' @ show_octet d"

definition private_or_loopback_ipv4 :: "nat \<Rightarrow> nat \<Rightarrow> bool" where
  "private_or_loopback_ipv4 a b =
     (a = 10 \<or> (a = 172 \<and> 16 \<le> b \<and> b \<le> 31) \<or> (a = 192 \<and> b = 168) \<or> a = 127)"

section \<open>Test fixtures (tests/auth.test.js, tests/routes.test.js)\<close>

text \<open>The bare request of the middleware tests, \<^verbatim>\<open>mockReq = { headers: {} }\<close>, the default
  configuration, and a stand-in for the token verifier that knows one valid and one
  expired token.\<close>

definition mockReq :: request where
  "mockReq =
     \<lparr> headers = \<lparr> hdr_authorization = None, hdr_x_internal_api_key = None,
                   hdr_x_forwarded_for = None, hdr_user_agent = None, hdr_referer = None \<rparr>,
       remoteAddress = None,
       body = \<lparr> short_code = None, original_url = None \<rparr>,
       query = \<lparr> q_limit = None, q_offset = None, q_days = None \<rparr>,
       param_shortCode = [],
       isInternalService = False,
       user = None \<rparr>"

definition authReq :: "string \<Rightarrow> request" where
  "authReq h = mockReq\<lparr> headers := (headers mockReq)\<lparr> hdr_authorization := Some h \<rparr> \<rparr>"

definition test_env :: environment where
  "test_env = \<lparr> JWT_SECRET = None, INTERNAL_API_KEY = None \<rparr>"

definition test_verify :: jwt_verify where
  "test_verify token secret =
     (if token = Some ''valid.user123.token'' then Inr \<lparr> payload_userId = Some ''user123'' \<rparr>
      else if token = Some ''expired.user123.token''
      then Inl (JsError ''TokenExpiredError'' ''jwt expired'')
      else Inl (JsError ''JsonWebTokenError'' ''invalid token''))"

text \<open>A request carrying the configured internal key and no Authorization header, a
  small click collection, and requests against it.\<close>

definition internalReq :: request where
  "internalReq = mockReq\<lparr> headers := (headers mockReq)
     \<lparr> hdr_x_internal_api_key := Some ''internal-service-key-change-in-production'' \<rparr> \<rparr>"

definition test_click :: "string \<Rightarrow> string \<Rightarrow> int \<Rightarrow> click" where
  "test_click cid sc ts =
     \<lparr> click_id = cid, shortCode = sc, originalUrl = ''https://example.com'', timestamp = ts,
       userAgent = None, referer = None, ipAddress = None, country = None, countryCode = None,
       city = None, region = None, latitude = None, longitude = None, timezone = None \<rparr>"

definition test_store :: store where
  "test_store =
     \<lparr> docs = [test_click ''c1'' ''history123'' 1000, test_click ''c2'' ''history123'' 2000],
       connected = True \<rparr>"

definition emptyCodeReq :: request where
  "emptyCodeReq = internalReq\<lparr> body := \<lparr> short_code = Some [], original_url = Some ''https://example.com'' \<rparr> \<rparr>"

definition neverSeenReq :: request where
  "neverSeenReq = internalReq\<lparr> param_shortCode := ''never-seen'' \<rparr>"

definition stats_store :: store where
  "stats_store =
     \<lparr> docs = [test_click ''s1'' ''stats123'' 1000000000,
               test_click ''s2'' ''stats123'' (1000000000 - 12 * 60 * 60 * 1000),
               test_click ''s3'' ''stats123'' (1000000000 - 3 * 24 * 60 * 60 * 1000)],
       connected = True \<rparr>"

definition statsReq :: request where
  "statsReq = internalReq\<lparr> param_shortCode := ''stats123'' \<rparr>"

text \<open>Authenticated history and daily requests.\<close>

definition historyReq :: "js_string option \<Rightarrow> js_string option \<Rightarrow> request" where
  "historyReq lim_param off_param =
     (authReq ''Bearer valid.user123.token'')
       \<lparr> query := \<lparr> q_limit = lim_param, q_offset = off_param, q_days = None \<rparr>,
         param_shortCode := ''history123'' \<rparr>"



text \<open>A database that knows only the country of an address, the track request of the
  geolocation test, and an empty collection.\<close>

definition country_only_reader :: "string \<Rightarrow> js_error + city_response" where
  "country_only_reader ip =
     Inr \<lparr> country_names_en = Some ''Germany'', country_isoCode = Some ''DE'',
           city_names_en = None, subdivision0_names_en = None, location_latitude = None,
           location_longitude = None, location_timeZone = None \<rparr>"

definition geoReq :: request where
  "geoReq = internalReq
     \<lparr> headers := (headers internalReq)\<lparr> hdr_x_forwarded_for := Some ''8.8.8.8'' \<rparr>,
       body := \<lparr> short_code = Some ''geoloc'', original_url = Some ''https://example.com/geo'' \<rparr> \<rparr>"

definition empty_store :: store where
  "empty_store = \<lparr> docs = [], connected = True \<rparr>"

text \<open>A request that came through a proxy, and one that came directly.\<close>

definition fwdReq :: request where
  "fwdReq = mockReq
     \<lparr> headers := (headers mockReq)\<lparr> hdr_x_forwarded_for := Some ''8.8.8.8, 10.0.0.1'' \<rparr>,
       remoteAddress := Some ''::ffff:127.0.0.1'' \<rparr>"

definition peerReq :: request where
  "peerReq = mockReq\<lparr> remoteAddress := Some ''::ffff:127.0.0.1'' \<rparr>"

text \<open>The location the route tests mock, and a database that knows no address.\<close>

definition test_reader :: "string \<Rightarrow> js_error + city_response" where
  "test_reader ip =
     Inr \<lparr> country_names_en = Some ''United States'', country_isoCode = Some ''US'',
           city_names_en = Some ''New York'', subdivision0_names_en = Some ''NY'',
           location_latitude = Some 40.7128, location_longitude = Some (- 74.006),
           location_timeZone = Some ''America/New_York'' \<rparr>"

definition test_location :: geo_data where
  "test_location =
     \<lparr> g_country = Some ''United States'', g_countryCode = Some ''US'',
       g_city = Some ''New York'', g_region = Some ''NY'', g_latitude = Some 40.7128,
       g_longitude = Some (- 74.006), g_timezone = Some ''America/New_York'' \<rparr>"

definition not_found_reader :: "string \<Rightarrow> js_error + city_response" where
  "not_found_reader ip =
     Inl (JsError ''AddressNotFoundError'' ''The address is not in the database'')"

section \<open>Properties\<close>

subsection \<open>Strings and configuration\<close>

lemma split_on_nonempty: "split_on c s \<noteq> []"
  by (induction s) (auto split: list.splits)

lemma hd_split_on: "hd (split_on c s) = takeWhile (\<lambda>x. x \<noteq> c) s"
  by (induction s) (auto split: list.splits simp: split_on_nonempty)

lemma split_on_append: "c \<notin> set p \<Longrightarrow> split_on c (p @ c # r) = p # split_on c r"
  by (induction p) (auto split: list.splits simp: split_on_nonempty)

lemma startsWith_split: "startsWith s p \<Longrightarrow> s = p @ drop (length p) s"
  unfolding startsWith_def by (metis append_take_drop_id)

lemma split_on_startsWith:
  assumes "startsWith s (p @ [c])" and "c \<notin> set p"
  shows "split_on c s = p # split_on c (drop (Suc (length p)) s)"
proof -
  have "split_on c s = split_on c ((p @ [c]) @ drop (length (p @ [c])) s)"
    by (rule arg_cong[where f = "split_on c"], rule startsWith_split[OF assms(1)])
  also have "\<dots> = p # split_on c (drop (Suc (length p)) s)"
    using assms(2) by (simp add: split_on_append)
  finally show ?thesis .
qed

text \<open>The token of a bearer-shaped header is what stands between the first space and the
  next one.\<close>

lemma bearer_token:
  assumes "startsWith h ''Bearer ''"
  shows "at_index (split_on CHR '' '' h) (Suc 0) =
           Some (takeWhile (\<lambda>x. x \<noteq> CHR '' '') (drop 7 h))"
proof -
  have "split_on CHR '' '' h = ''Bearer'' # split_on CHR '' '' (drop 7 h)"
    using split_on_startsWith[of h "''Bearer''" "CHR '' ''"] assms
    by (simp add: eval_nat_numeral)
  moreover obtain y ys where y: "split_on CHR '' '' (drop 7 h) = y # ys"
    using split_on_nonempty[of "CHR '' ''" "drop 7 h"]
    by (cases "split_on CHR '' '' (drop 7 h)") auto
  moreover have "y = takeWhile (\<lambda>x. x \<noteq> CHR '' '') (drop 7 h)"
    using hd_split_on[of "CHR '' ''" "drop 7 h"] y by simp
  ultimately show ?thesis by (simp add: at_index_def)
qed

text \<open>The configured secret is never empty: \<open>config.js\<close> falls back to a default.\<close>

lemma config_secret_nonempty: "jwtSecret (load_config env) \<noteq> []"
  by (auto simp: load_config_def or_default_def split: option.splits)

subsection \<open>Middleware\<close>

lemma requireAuth_Next:
  "requireAuth cfg verify req = Next r \<Longrightarrow> \<exists>u. r = req\<lparr> user := u \<rparr>"
  unfolding requireAuth_def
  by (auto simp: Let_def split: option.splits if_splits sum.splits)

lemma allowInternalService_Next:
  "allowInternalService cfg verify req = Next r \<Longrightarrow>
     body r = body req \<and> query r = query req \<and> headers r = headers req \<and>
     param_shortCode r = param_shortCode req \<and> remoteAddress r = remoteAddress req"
  unfolding allowInternalService_def
  by (auto split: if_splits dest: requireAuth_Next)

lemma limiter_Next:
  "apiLimiter hits req = Next r \<Longrightarrow> r = req"
  "trackLimiter hits req = Next r \<Longrightarrow> r = req"
  unfolding apiLimiter_def trackLimiter_def by (auto split: if_splits)

text \<open>
  Claim C6. \<open>requireAuth\<close> answers 401 with the stated message in each failure mode:
  no Authorization header and a header that is not bearer-shaped give
  "Authentication required"; a token the verifier rejects with a \<open>JsonWebTokenError\<close>
  (an invalid signature) gives "Invalid token"; one it rejects with a
  \<open>TokenExpiredError\<close> gives "Token expired". When the verifier accepts the token,
  the request goes on with the decoded user id attached. The secret is the one
  \<open>config.js\<close> loads from any environment.
\<close>

theorem requireAuth_failure_modes:
  "(hdr_authorization (headers req) = None \<longrightarrow>
      requireAuth (load_config env) verify req =
        Respond (error_response 401 ''Authentication required'')) \<and>
   (\<forall>h. hdr_authorization (headers req) = Some h \<and> \<not> startsWith h ''Bearer '' \<longrightarrow>
      requireAuth (load_config env) verify req =
        Respond (error_response 401 ''Authentication required'')) \<and>
   (\<forall>h e. hdr_authorization (headers req) = Some h \<and> startsWith h ''Bearer '' \<and>
      verify (Some (takeWhile (\<lambda>c. c \<noteq> CHR '' '') (drop 7 h)))
        (jwtSecret (load_config env)) = Inl e \<and>
      err_name e = ''JsonWebTokenError'' \<longrightarrow>
      requireAuth (load_config env) verify req =
        Respond (error_response 401 ''Invalid token'')) \<and>
   (\<forall>h e. hdr_authorization (headers req) = Some h \<and> startsWith h ''Bearer '' \<and>
      verify (Some (takeWhile (\<lambda>c. c \<noteq> CHR '' '') (drop 7 h)))
        (jwtSecret (load_config env)) = Inl e \<and>
      err_name e = ''TokenExpiredError'' \<longrightarrow>
      requireAuth (load_config env) verify req =
        Respond (error_response 401 ''Token expired'')) \<and>
   (\<forall>h d. hdr_authorization (headers req) = Some h \<and> startsWith h ''Bearer '' \<and>
      verify (Some (takeWhile (\<lambda>c. c \<noteq> CHR '' '') (drop 7 h)))
        (jwtSecret (load_config env)) = Inr d \<longrightarrow>
      requireAuth (load_config env) verify req =
        Next (req\<lparr> user := Some \<lparr> userId = payload_userId d \<rparr> \<rparr>))"
proof -
  have ne: "\<And>h. startsWith h ''Bearer '' \<Longrightarrow> h \<noteq> []"
    by (auto simp: startsWith_def)
  show ?thesis
    unfolding requireAuth_def
    by (auto simp: Let_def bearer_token config_secret_nonempty dest: ne)
qed

theorem requireAuth_failure_modes_witness:
  "requireAuth (load_config test_env) test_verify mockReq =
     Respond (error_response 401 ''Authentication required'') \<and>
   requireAuth (load_config test_env) test_verify (authReq ''NotBearer token'') =
     Respond (error_response 401 ''Authentication required'') \<and>
   requireAuth (load_config test_env) test_verify (authReq ''Bearer invalid.token.here'') =
     Respond (error_response 401 ''Invalid token'') \<and>
   requireAuth (load_config test_env) test_verify (authReq ''Bearer expired.user123.token'') =
     Respond (error_response 401 ''Token expired'') \<and>
   requireAuth (load_config test_env) test_verify (authReq ''Bearer valid.user123.token'') =
     Next ((authReq ''Bearer valid.user123.token'')
             \<lparr> user := Some \<lparr> userId = Some ''user123'' \<rparr> \<rparr>)"
  using requireAuth_failure_modes[of mockReq test_env test_verify]
    requireAuth_failure_modes[of "authReq ''NotBearer token''" test_env test_verify]
    requireAuth_failure_modes[of "authReq ''Bearer invalid.token.here''" test_env test_verify]
    requireAuth_failure_modes[of "authReq ''Bearer expired.user123.token''" test_env test_verify]
    requireAuth_failure_modes[of "authReq ''Bearer valid.user123.token''" test_env test_verify]
  by (simp add: mockReq_def authReq_def test_verify_def startsWith_def)

subsection \<open>Routes\<close>

lemma read_route_Respond: "auth req = Respond r \<Longrightarrow> read_route auth hits handler req = r"
  by (simp add: read_route_def)

lemma read_route_pass:
  "auth req = Next r1 \<Longrightarrow> isInternalService r1 \<or> hits \<le> 100 \<Longrightarrow>
     read_route auth hits handler req = handler r1"
  by (auto simp: read_route_def apiLimiter_def)

text \<open>
  Claim C1. A request to the history, daily or geographic route that carries no bearer
  token (no Authorization header, or one that does not start with "Bearer ") is
  answered 401 "Authentication required" with an error body and no data, whatever its
  other headers are: a valid internal-service key does not help, because these routes
  run \<open>requireAuth\<close> and never look at the key.
\<close>

theorem user_token_routes_reject_without_bearer:
  assumes "hdr_authorization (headers req) = None \<or>
           (\<exists>h. hdr_authorization (headers req) = Some h \<and> \<not> startsWith h ''Bearer '')"
  shows "history_route cfg verify hits st req =
           error_response 401 ''Authentication required'' \<and>
         daily_route cfg verify hits now st req =
           error_response 401 ''Authentication required'' \<and>
         geo_route cfg verify hits st req =
           error_response 401 ''Authentication required''"
proof -
  from assms have "requireAuth cfg verify req =
      Respond (error_response 401 ''Authentication required'')"
    unfolding requireAuth_def by auto
  then show ?thesis
    by (simp add: history_route_def daily_route_def geo_route_def read_route_Respond)
qed

theorem user_token_routes_reject_without_bearer_witness:
  "verifyInternalApiKey (load_config test_env) internalReq \<and>
   history_route (load_config test_env) test_verify 1 test_store internalReq =
     error_response 401 ''Authentication required'' \<and>
   daily_route (load_config test_env) test_verify 1 5000 test_store internalReq =
     error_response 401 ''Authentication required'' \<and>
   geo_route (load_config test_env) test_verify 1 test_store internalReq =
     error_response 401 ''Authentication required''"
proof -
  have h: "hdr_authorization (headers internalReq) = None \<or>
           (\<exists>h. hdr_authorization (headers internalReq) = Some h \<and> \<not> startsWith h ''Bearer '')"
    by (simp add: internalReq_def mockReq_def)
  have k: "verifyInternalApiKey (load_config test_env) internalReq"
    by (simp add: verifyInternalApiKey_def internalReq_def mockReq_def load_config_def
        test_env_def or_default_def truthy_def)
  show ?thesis
    using k user_token_routes_reject_without_bearer[OF h] by simp
qed

lemma track_route_pass:
  "allowInternalService cfg verify req = Next r1 \<Longrightarrow> isInternalService r1 \<or> hits \<le> 60 \<Longrightarrow>
     track_route cfg verify hits reader new_id now st req = track_handler reader new_id now st r1"
  by (auto simp: track_route_def trackLimiter_def)

lemma track_handler_invalid:
  "\<not> truthy (short_code (body req)) \<or> \<not> truthy (original_url (body req)) \<Longrightarrow>
     track_handler reader new_id now st req =
       (st, error_response 400 ''short_code and original_url are required'')"
  by (auto simp: track_handler_def)

lemma track_route_invalid_store:
  assumes "\<not> truthy (short_code (body req)) \<or> \<not> truthy (original_url (body req))"
  shows "fst (track_route cfg verify hits reader new_id now st req) = st"
proof (cases "allowInternalService cfg verify req")
  case (Respond r)
  then show ?thesis by (simp add: track_route_def)
next
  case (Next r1)
  then have b: "body r1 = body req" by (simp add: allowInternalService_Next)
  show ?thesis
  proof (cases "trackLimiter hits r1")
    case (Respond r)
    with Next show ?thesis by (simp add: track_route_def)
  next
    case (Next r2)
    then have "r2 = r1" by (rule limiter_Next)
    with Next \<open>allowInternalService cfg verify req = Next r1\<close> b assms show ?thesis
      by (simp add: track_route_def track_handler_invalid)
  qed
qed

text \<open>
  Claim C10. A track request whose \<open>short_code\<close> or \<open>original_url\<close> is the empty string
  is answered 400 with the message of a missing field, exactly as when the field is
  absent, and the store is left as it was; on the whole route the store is unchanged,
  and a request that passes access control and the limiter gets that 400.
\<close>

theorem track_empty_field_rejected:
  assumes "short_code (body req) = Some [] \<or> original_url (body req) = Some []"
  shows "track_handler reader new_id now st req =
           (st, error_response 400 ''short_code and original_url are required'') \<and>
         track_handler reader new_id now st (req\<lparr> body := (body req)\<lparr> short_code := None \<rparr> \<rparr>) =
           (st, error_response 400 ''short_code and original_url are required'') \<and>
         track_handler reader new_id now st (req\<lparr> body := (body req)\<lparr> original_url := None \<rparr> \<rparr>) =
           (st, error_response 400 ''short_code and original_url are required'') \<and>
         fst (track_route cfg verify hits reader new_id now st req) = st \<and>
         (\<forall>r1. allowInternalService cfg verify req = Next r1 \<and>
               (isInternalService r1 \<or> hits \<le> 60) \<longrightarrow>
            track_route cfg verify hits reader new_id now st req =
              (st, error_response 400 ''short_code and original_url are required''))"
proof -
  from assms have inv: "\<not> truthy (short_code (body req)) \<or> \<not> truthy (original_url (body req))"
    by (auto simp: truthy_def)
  have "\<And>r1. allowInternalService cfg verify req = Next r1 \<Longrightarrow>
      \<not> truthy (short_code (body r1)) \<or> \<not> truthy (original_url (body r1))"
    using inv by (simp add: allowInternalService_Next)
  then show ?thesis
    using inv track_route_invalid_store[OF inv]
    by (auto simp: track_handler_invalid track_route_pass truthy_def)
qed

theorem track_empty_field_rejected_witness:
  "short_code (body emptyCodeReq) = Some [] \<and>
   track_handler None ''id1'' 5000 test_store emptyCodeReq =
     (test_store, error_response 400 ''short_code and original_url are required'') \<and>
   track_route (load_config test_env) test_verify 1 None ''id1'' 5000 test_store emptyCodeReq =
     (test_store, error_response 400 ''short_code and original_url are required'')"
proof -
  have h: "short_code (body emptyCodeReq) = Some [] \<or> original_url (body emptyCodeReq) = Some []"
    by (simp add: emptyCodeReq_def)
  have k: "allowInternalService (load_config test_env) test_verify emptyCodeReq =
             Next (emptyCodeReq\<lparr> isInternalService := True \<rparr>)"
    by (simp add: allowInternalService_def verifyInternalApiKey_def emptyCodeReq_def
        internalReq_def mockReq_def load_config_def test_env_def or_default_def truthy_def)
  show ?thesis
    using track_empty_field_rejected[OF h, of None "''id1''" 5000 test_store
        "load_config test_env" test_verify 1] k
    by (simp add: emptyCodeReq_def)
qed

subsection \<open>Point stats\<close>

lemma length_filter_mono:
  "(\<And>x. x \<in> set xs \<Longrightarrow> P x \<Longrightarrow> Q x) \<Longrightarrow> length (filter P xs) \<le> length (filter Q xs)"
  by (induction xs) auto

lemma stats_handler_connected:
  "connected st \<Longrightarrow>
   stats_handler now1 now2 st req =
     \<lparr> status = 200,
       payload = StatsBody
         \<lparr> sb_shortCode = param_shortCode req,
           totalClicks = length (filter (\<lambda>c. shortCode c = param_shortCode req) (docs st)),
           last24Hours = length (filter (\<lambda>c. shortCode c = param_shortCode req \<and>
                            timestamp c \<ge> now1 - 24 * 60 * 60 * 1000) (docs st)),
           last7Days = length (filter (\<lambda>c. shortCode c = param_shortCode req \<and>
                            timestamp c \<ge> now2 - 7 * 24 * 60 * 60 * 1000) (docs st)),
           lastClickAt =
             (case sort_newest_first (filter (\<lambda>c. shortCode c = param_shortCode req) (docs st)) of
                [] \<Rightarrow> None | c # _ \<Rightarrow> Some (timestamp c)) \<rparr> \<rparr>"
  by (simp add: stats_handler_def Let_def catch_500_def and_then_def countDocuments_def
      findOne_newest_def)

lemma stats_handler_status: "status (stats_handler now1 now2 st req) \<in> {200, 500}"
  by (cases "connected st")
     (simp_all add: stats_handler_connected, simp add: stats_handler_def Let_def catch_500_def
       and_then_def countDocuments_def error_response_def)

lemma allowInternalService_status:
  "allowInternalService cfg verify req = Respond r \<Longrightarrow> status r \<in> {401, 500}"
  unfolding allowInternalService_def requireAuth_def
  by (auto simp: Let_def error_response_def split: if_splits option.splits sum.splits)

lemma stats_route_status:
  "status (stats_route cfg verify hits now1 now2 st req) \<in> {200, 401, 429, 500}"
proof (cases "allowInternalService cfg verify req")
  case (Respond r)
  then show ?thesis
    using allowInternalService_status[OF Respond]
    by (auto simp: stats_route_def read_route_def)
next
  case (Next r1)
  then show ?thesis
    using stats_handler_status[of now1 now2 st r1]
    by (auto simp: stats_route_def read_route_def apiLimiter_def error_response_def)
qed

text \<open>
  Claim C8. While the store is reachable, point stats for a short code with no recorded
  click is 200 with \<open>totalClicks = 0\<close>, \<open>last24Hours = 0\<close>, \<open>last7Days = 0\<close> and
  \<open>lastClickAt = null\<close>, from the handler and from the route once access control and
  the limiter let the request through; the route never answers 404.
\<close>

theorem stats_unknown_code_all_zero:
  assumes "connected st" and "\<forall>c \<in> set (docs st). shortCode c \<noteq> param_shortCode req"
  shows "stats_handler now1 now2 st req =
           \<lparr> status = 200,
             payload = StatsBody \<lparr> sb_shortCode = param_shortCode req, totalClicks = 0,
               last24Hours = 0, last7Days = 0, lastClickAt = None \<rparr> \<rparr> \<and>
         (\<forall>r1. allowInternalService cfg verify req = Next r1 \<and>
               (isInternalService r1 \<or> hits \<le> 100) \<longrightarrow>
            stats_route cfg verify hits now1 now2 st req =
              \<lparr> status = 200,
                payload = StatsBody \<lparr> sb_shortCode = param_shortCode req, totalClicks = 0,
                  last24Hours = 0, last7Days = 0, lastClickAt = None \<rparr> \<rparr>) \<and>
         status (stats_route cfg verify hits now1 now2 st req) \<noteq> 404"
proof -
  from assms(2) have e: "filter (\<lambda>c. shortCode c = param_shortCode req) (docs st) = []"
    by (auto simp: filter_empty_conv)
  from assms(2) have e1: "\<And>P. filter (\<lambda>c. shortCode c = param_shortCode req \<and> P c) (docs st) = []"
    by (auto simp: filter_empty_conv)
  have z: "\<And>r. param_shortCode r = param_shortCode req \<Longrightarrow> stats_handler now1 now2 st r =
           \<lparr> status = 200,
             payload = StatsBody \<lparr> sb_shortCode = param_shortCode req, totalClicks = 0,
               last24Hours = 0, last7Days = 0, lastClickAt = None \<rparr> \<rparr>"
    using assms(1) e e1 by (simp add: stats_handler_connected sort_newest_first_def)
  have "status (stats_route cfg verify hits now1 now2 st req) \<noteq> 404"
    using stats_route_status[of cfg verify hits now1 now2 st req] by auto
  then show ?thesis
    using z by (auto simp: stats_route_def read_route_pass allowInternalService_Next)
qed

theorem stats_unknown_code_all_zero_witness:
  "connected test_store \<and>
   stats_handler 5000 5000 test_store neverSeenReq =
     \<lparr> status = 200,
       payload = StatsBody \<lparr> sb_shortCode = ''never-seen'', totalClicks = 0,
         last24Hours = 0, last7Days = 0, lastClickAt = None \<rparr> \<rparr> \<and>
   stats_route (load_config test_env) test_verify 1 5000 5000 test_store neverSeenReq =
     \<lparr> status = 200,
       payload = StatsBody \<lparr> sb_shortCode = ''never-seen'', totalClicks = 0,
         last24Hours = 0, last7Days = 0, lastClickAt = None \<rparr> \<rparr>"
proof -
  have c: "connected test_store" by (simp add: test_store_def)
  have n: "\<forall>c \<in> set (docs test_store). shortCode c \<noteq> param_shortCode neverSeenReq"
    by (simp add: test_store_def test_click_def neverSeenReq_def)
  have k: "allowInternalService (load_config test_env) test_verify neverSeenReq =
             Next (neverSeenReq\<lparr> isInternalService := True \<rparr>)"
    by (simp add: allowInternalService_def verifyInternalApiKey_def neverSeenReq_def
        internalReq_def mockReq_def load_config_def test_env_def or_default_def truthy_def)
  have p: "param_shortCode neverSeenReq = ''never-seen''" by (simp add: neverSeenReq_def)
  show ?thesis
    using c k stats_unknown_code_all_zero[OF c n, of 5000 5000 "load_config test_env" test_verify 1]
    by (simp add: p)
qed

text \<open>
  Claim C9. For every short code and every content of a reachable store, the counters of
  point stats satisfy \<open>last24Hours \<le> last7Days \<le> totalClicks\<close>. The handler reads the
  clock once for each window; the two readings of one request are taken to lie less
  than six days apart.
\<close>

theorem stats_counters_ordered:
  assumes "connected st" and "now2 \<le> now1 + 6 * 24 * 60 * 60 * 1000"
  shows "\<exists>b. stats_handler now1 now2 st req = \<lparr> status = 200, payload = StatsBody b \<rparr> \<and>
             last24Hours b \<le> last7Days b \<and> last7Days b \<le> totalClicks b"
proof -
  have a: "length (filter (\<lambda>c. shortCode c = param_shortCode req \<and>
               timestamp c \<ge> now1 - 24 * 60 * 60 * 1000) (docs st))
        \<le> length (filter (\<lambda>c. shortCode c = param_shortCode req \<and>
               timestamp c \<ge> now2 - 7 * 24 * 60 * 60 * 1000) (docs st))"
    using assms(2) by (intro length_filter_mono) auto
  have b: "length (filter (\<lambda>c. shortCode c = param_shortCode req \<and>
               timestamp c \<ge> now2 - 7 * 24 * 60 * 60 * 1000) (docs st))
        \<le> length (filter (\<lambda>c. shortCode c = param_shortCode req) (docs st))"
    by (intro length_filter_mono) auto
  show ?thesis
    using a b by (simp add: stats_handler_connected[OF assms(1)])
qed

theorem stats_counters_ordered_witness:
  "stats_handler 1000000000 1000000000 stats_store statsReq =
     \<lparr> status = 200,
       payload = StatsBody \<lparr> sb_shortCode = ''stats123'', totalClicks = 3,
         last24Hours = 2, last7Days = 3, lastClickAt = Some 1000000000 \<rparr> \<rparr> \<and>
   (\<exists>b. stats_handler 1000000000 1000000000 stats_store statsReq =
          \<lparr> status = 200, payload = StatsBody b \<rparr> \<and>
        last24Hours b \<le> last7Days b \<and> last7Days b \<le> totalClicks b)"
proof -
  have c: "connected stats_store" by (simp add: stats_store_def)
  have t: "(1000000000::int) \<le> 1000000000 + 6 * 24 * 60 * 60 * 1000" by simp
  have v: "stats_handler 1000000000 1000000000 stats_store statsReq =
     \<lparr> status = 200,
       payload = StatsBody \<lparr> sb_shortCode = ''stats123'', totalClicks = 3,
         last24Hours = 2, last7Days = 3, lastClickAt = Some 1000000000 \<rparr> \<rparr>"
    by (subst stats_handler_connected[OF c])
       (simp add: statsReq_def internalReq_def mockReq_def stats_store_def test_click_def
         sort_newest_first_def)
  show ?thesis
    using v stats_counters_ordered[OF c t, of statsReq] by simp
qed

subsection \<open>Numbers\<close>

lemma bit_length_le: "n < 2 ^ k \<Longrightarrow> bit_length n \<le> k"
proof (induction k arbitrary: n)
  case 0
  then show ?case by (simp add: bit_length.simps)
next
  case (Suc k)
  show ?case
  proof (cases "n = 0")
    case True
    then show ?thesis by (simp add: bit_length.simps)
  next
    case False
    from Suc.prems have "n div 2 < 2 ^ k" by simp
    then have "bit_length (n div 2) \<le> k" by (rule Suc.IH)
    with False show ?thesis by (subst bit_length.simps) simp
  qed
qed

text \<open>An integer below \<open>2^53\<close> in absolute value is represented exactly.\<close>

lemma to_double_exact:
  assumes "\<bar>n\<bar> < 2 ^ 53"
  shows "to_double n = Num n"
proof -
  from assms have a: "nat \<bar>n\<bar> < 2 ^ 53"
    by (simp add: nat_less_iff)
  then have "bit_length (nat \<bar>n\<bar>) \<le> 53" by (rule bit_length_le)
  then have e: "bit_length (nat \<bar>n\<bar>) - 53 = 0" by simp
  have "(2::nat) ^ 53 \<le> 2 ^ 1024" by (rule power_increasing) simp_all
  with a have m: "\<not> 2 ^ 1024 \<le> nat \<bar>n\<bar>" by linarith
  have "sgn n * \<bar>n\<bar> = n" by (simp add: sgn_if)
  with m show ?thesis
    by (simp add: to_double_def e Let_def del: power_numeral)
qed

lemma parseInt10_0: "parseInt10 (js_str ''0'') = Num 0"
  by (simp add: parseInt10_def js_str_def is_white_space_def is_digit_def digits_value_def
      Let_def to_double_exact)



lemma bit_length_0: "bit_length 0 = 0"
  by (subst bit_length.simps) simp

lemma bit_length_step: "n \<noteq> 0 \<Longrightarrow> bit_length n = Suc (bit_length (n div 2))"
  by (subst bit_length.simps) simp

text \<open>Beyond \<open>2^53\<close> the parsed value is rounded, a tie to the even significand; Unicode
  white space before the number is skipped (here a no-break space and an em space).\<close>

lemma parseInt10_rounds:
  "parseInt10 (js_str ''-9007199254740993'') = Num (- 9007199254740992)"
  "parseInt10 (js_str ''9007199254740995'') = Num 9007199254740996"
  by (simp_all add: parseInt10_def js_str_def is_white_space_def is_digit_def digits_value_def
      Let_def to_double_def bit_length_step bit_length_0)

lemma parseInt10_skips_white_space:
  "parseInt10 (160 # js_str ''42'') = Num 42"
  "parseInt10 (8195 # js_str '' -42px'') = Num (- 42)"
  by (simp_all add: parseInt10_def js_str_def is_white_space_def is_digit_def digits_value_def
      Let_def to_double_exact)

subsection \<open>History\<close>

lemma requireAuth_pass:
  assumes "requireAuth cfg verify req = Next r1" and "hits \<le> 100"
  shows "read_route (requireAuth cfg verify) hits handler req = handler r1 \<and>
         query r1 = query req \<and> param_shortCode r1 = param_shortCode req"
  using requireAuth_Next[OF assms(1)] assms
    read_route_pass[of "requireAuth cfg verify" req r1 hits handler]
  by auto

lemma valid_token_passes:
  "hdr_authorization (headers req) = Some ''Bearer valid.user123.token'' \<Longrightarrow>
   requireAuth (load_config test_env) test_verify req =
     Next (req\<lparr> user := Some \<lparr> userId = Some ''user123'' \<rparr> \<rparr>)"
  by (simp add: requireAuth_def startsWith_def Let_def at_index_def test_verify_def
      config_secret_nonempty)

lemma find_page_length:
  "find_page st sc (Num k) (Num l) = Inr cs \<Longrightarrow> 1 \<le> l \<Longrightarrow> int (length cs) \<le> l"
  by (auto simp: find_page_def Let_def split: if_splits)

lemma find_page_unlimited:
  "connected st \<Longrightarrow>
   find_page st sc (Num 0) (Num 0) =
     Inr (map select_view (sort_newest_first (filter (\<lambda>c. shortCode c = sc) (docs st))))"
  by (simp add: find_page_def Let_def)

lemma history_handler_ok:
  assumes "connected st"
    and "parse_param (q_limit (query req)) 100 = Num n"
    and "parse_param (q_offset (query req)) 0 = Num k" and "0 \<le> k"
  shows "\<exists>cs. find_page st (param_shortCode req) (Num k) (Num (min n 100)) = Inr cs \<and>
           history_handler st req =
             \<lparr> status = 200,
               payload = HistoryBody \<lparr> hb_shortCode = param_shortCode req,
                 hb_total = length (filter (\<lambda>c. shortCode c = param_shortCode req) (docs st)),
                 hb_limit = Num (min n 100), hb_offset = Num k, hb_clicks = cs \<rparr> \<rparr>"
  using assms
  by (simp add: history_handler_def Let_def catch_500_def and_then_def countDocuments_def
      find_page_def)

text \<open>From a requested limit of 1 on, the history route keeps to the specification: the
  echoed limit is \<open>min n 100\<close>, in \<open>[1,100]\<close>, and the page is no longer than it.\<close>

lemma history_limit_capped_above:
  assumes "requireAuth cfg verify req = Next r1" and "hits \<le> 100" and "connected st"
    and "parse_param (q_limit (query req)) 100 = Num n"
    and "parse_param (q_offset (query req)) 0 = Num k" and "0 \<le> k"
  shows "\<exists>b. history_route cfg verify hits st req = \<lparr> status = 200, payload = HistoryBody b \<rparr> \<and>
             hb_limit b = Num (min n 100) \<and> min n 100 \<le> 100 \<and>
             (1 \<le> n \<longrightarrow> 1 \<le> min n 100 \<and> int (length (hb_clicks b)) \<le> min n 100)"
proof -
  from requireAuth_pass[OF assms(1,2)]
  have r: "history_route cfg verify hits st req = history_handler st r1"
    and q: "query r1 = query req"
    by (simp_all add: history_route_def)
  from history_handler_ok[OF assms(3), of r1 n k] assms(4-6) q
  obtain cs where cs: "find_page st (param_shortCode r1) (Num k) (Num (min n 100)) = Inr cs"
    and h: "history_handler st r1 =
             \<lparr> status = 200,
               payload = HistoryBody \<lparr> hb_shortCode = param_shortCode r1,
                 hb_total = length (filter (\<lambda>c. shortCode c = param_shortCode r1) (docs st)),
                 hb_limit = Num (min n 100), hb_offset = Num k, hb_clicks = cs \<rparr> \<rparr>"
    by auto
  have "1 \<le> n \<Longrightarrow> int (length cs) \<le> min n 100"
    using find_page_length[OF cs] by simp
  with r h show ?thesis by simp
qed

text \<open>
  Claim C2 fails on the code at a requested limit of 0. The route caps the limit from
  above only, \<open>Math.min(parseInt(limit, 10), 100)\<close>, so 0 goes through: it is echoed
  as 0, below the claimed range, and \<open>.limit(0)\<close> asks the store for no limit, so the
  page is the whole history of the short code, however long. This holds for every
  authenticated request within the rate limit and every reachable store.
\<close>

theorem history_limit_zero_unlimited:
  assumes "requireAuth cfg verify req = Next r1" and "hits \<le> 100" and "connected st"
    and "parse_param (q_limit (query req)) 100 = Num 0"
    and "parse_param (q_offset (query req)) 0 = Num 0"
  shows "\<exists>b. history_route cfg verify hits st req = \<lparr> status = 200, payload = HistoryBody b \<rparr> \<and>
             hb_limit b = Num 0 \<and>
             hb_total b = length (filter (\<lambda>c. shortCode c = param_shortCode req) (docs st)) \<and>
             length (hb_clicks b) = hb_total b"
proof -
  from requireAuth_pass[OF assms(1,2)]
  have r: "history_route cfg verify hits st req = history_handler st r1"
    and q: "query r1 = query req" and p: "param_shortCode r1 = param_shortCode req"
    by (simp_all add: history_route_def)
  from history_handler_ok[OF assms(3), of r1 0 0] assms(4,5) q
  obtain cs where cs: "find_page st (param_shortCode r1) (Num 0) (Num 0) = Inr cs"
    and h: "history_handler st r1 =
             \<lparr> status = 200,
               payload = HistoryBody \<lparr> hb_shortCode = param_shortCode r1,
                 hb_total = length (filter (\<lambda>c. shortCode c = param_shortCode r1) (docs st)),
                 hb_limit = Num 0, hb_offset = Num 0, hb_clicks = cs \<rparr> \<rparr>"
    by auto
  from cs have "length cs = length (filter (\<lambda>c. shortCode c = param_shortCode r1) (docs st))"
    by (auto simp: find_page_unlimited[OF assms(3)] sort_newest_first_def)
  with r h p show ?thesis by simp
qed

theorem history_limit_zero_unlimited_witness:
  "history_route (load_config test_env) test_verify 1 test_store
       (historyReq (Some (js_str ''0'')) None) =
     \<lparr> status = 200,
       payload = HistoryBody \<lparr> hb_shortCode = ''history123'', hb_total = 2,
         hb_limit = Num 0, hb_offset = Num 0,
         hb_clicks = [select_view (test_click ''c2'' ''history123'' 2000),
                      select_view (test_click ''c1'' ''history123'' 1000)] \<rparr> \<rparr> \<and>
   (\<exists>b. history_route (load_config test_env) test_verify 1 test_store
          (historyReq (Some (js_str ''0'')) None) = \<lparr> status = 200, payload = HistoryBody b \<rparr> \<and>
        hb_limit b = Num 0 \<and> length (hb_clicks b) = hb_total b)"
proof -
  have a: "requireAuth (load_config test_env) test_verify (historyReq (Some (js_str ''0'')) None) =
      Next ((historyReq (Some (js_str ''0'')) None)
              \<lparr> user := Some \<lparr> userId = Some ''user123'' \<rparr> \<rparr>)"
    by (rule valid_token_passes) (simp add: historyReq_def authReq_def)
  have h: "(1::nat) \<le> 100" by simp
  have c: "connected test_store" by (simp add: test_store_def)
  have l: "parse_param (q_limit (query (historyReq (Some (js_str ''0'')) None))) 100 = Num 0"
    by (simp add: historyReq_def parse_param_def parseInt10_0)
  have k: "parse_param (q_offset (query (historyReq (Some (js_str ''0'')) None))) 0 = Num 0"
    by (simp add: historyReq_def parse_param_def)
  have v: "history_route (load_config test_env) test_verify 1 test_store
       (historyReq (Some (js_str ''0'')) None) =
     \<lparr> status = 200,
       payload = HistoryBody \<lparr> hb_shortCode = ''history123'', hb_total = 2,
         hb_limit = Num 0, hb_offset = Num 0,
         hb_clicks = [select_view (test_click ''c2'' ''history123'' 2000),
                      select_view (test_click ''c1'' ''history123'' 1000)] \<rparr> \<rparr>"
    by (simp add: history_route_def read_route_def a apiLimiter_def)
       (simp add: historyReq_def authReq_def mockReq_def history_handler_def Let_def
         parse_param_def parseInt10_0 find_page_def test_store_def test_click_def
         sort_newest_first_def catch_500_def and_then_def countDocuments_def select_view_def)
  show ?thesis
    using v history_limit_zero_unlimited[OF a h c l k] by simp
qed

subsection \<open>Daily series\<close>






subsection \<open>Geolocation and the track route\<close>

lemma or_null_idem: "or_null (or_null v) = or_null v"
  by (simp add: or_null_def truthy_def)

lemma or_null_num_idem: "or_null_num (or_null_num v) = or_null_num v"
  by (simp add: or_null_num_def split: option.splits)

lemma lookupIP_total: "\<exists>r. lookupIP reader ip = Inr r"
  by (auto simp: lookupIP_def split: option.splits sum.splits)

lemma lookupIP_Some:
  assumes "lookupIP reader ip = Inr (Some g)"
  shows "or_null (g_country g) = g_country g \<and> or_null (g_countryCode g) = g_countryCode g \<and>
         or_null (g_city g) = g_city g \<and> or_null (g_region g) = g_region g \<and>
         or_null_num (g_latitude g) = g_latitude g \<and>
         or_null_num (g_longitude g) = g_longitude g \<and>
         or_null (g_timezone g) = g_timezone g"
  using assms
  by (auto simp: lookupIP_def lookupIP_try_def or_null_idem or_null_num_idem
      split: option.splits sum.splits if_splits)

lemma track_handler_created:
  assumes "track_handler reader new_id now st req = (st', r)" and "status r = 201"
  shows "\<exists>g. lookupIP reader (track_ipAddress req) = Inr g \<and>
             st' = st\<lparr> docs := docs st @ [new_click new_id now req (track_ipAddress req) g] \<rparr>"
  using assms
  by (auto simp: track_handler_def Let_def and_then_def save_def error_response_def
      split: if_splits sum.splits)

text \<open>
  Claim C4, as the code has it. The record a successful track request writes takes its
  geolocation from the resolver's answer: after a miss (the resolver returned null) all
  seven attributes are null; after a hit each attribute is copied on its own from the
  resolver's structure, whose attributes are individually nullable.
\<close>

theorem track_geolocation_copied:
  assumes "track_handler reader new_id now st req = (st', r)" and "status r = 201"
  shows "\<exists>c. docs st' = docs st @ [c] \<and>
           (case lookupIP reader (track_ipAddress req) of
              Inl e \<Rightarrow> False
            | Inr None \<Rightarrow> geo_absent c
            | Inr (Some g) \<Rightarrow>
                country c = g_country g \<and> countryCode c = g_countryCode g \<and>
                city c = g_city g \<and> region c = g_region g \<and> latitude c = g_latitude g \<and>
                longitude c = g_longitude g \<and> timezone c = g_timezone g)"
proof -
  from track_handler_created[OF assms] obtain g where
    g: "lookupIP reader (track_ipAddress req) = Inr g" and
    s: "st' = st\<lparr> docs := docs st @ [new_click new_id now req (track_ipAddress req) g] \<rparr>"
    by blast
  show ?thesis
  proof (cases g)
    case None
    with g s show ?thesis
      by (simp add: new_click_def geo_absent_def or_null_def or_null_num_def truthy_def)
  next
    case (Some gd)
    from lookupIP_Some[OF g[unfolded Some]] g s Some show ?thesis
      by (simp add: new_click_def)
  qed
qed

lemma geoReq_ip: "track_ipAddress geoReq = Some ''8.8.8.8''"
  by (simp add: track_ipAddress_def req_ip_def geoReq_def internalReq_def mockReq_def
      or_default_def forwarded_for_entries_def trim_spaces_def truthy_def)

lemma public_ip: "\<not> isPrivateIP (Some ''8.8.8.8'')"
  by (simp add: isPrivateIP_def privateRanges_def re_10_def re_172_def re_192_168_def
      re_127_def re_localhost_def re_loopback6_def re_fe80_def startsWith_def toLowerCase_def
      ascii_lower_def)

text \<open>
  Claim C4 as stated fails: when the database knows only the country of the address, the
  record written has country and country code set and the other five attributes null.
\<close>

theorem track_partial_geolocation_counterexample:
  "fst (track_handler (Some country_only_reader) ''id1'' 5000 empty_store geoReq) =
     \<lparr> docs = [\<lparr> click_id = ''id1'', shortCode = ''geoloc'',
                 originalUrl = ''https://example.com/geo'', timestamp = 5000,
                 userAgent = None, referer = None, ipAddress = Some ''8.8.8.8'',
                 country = Some ''Germany'', countryCode = Some ''DE'', city = None,
                 region = None, latitude = None, longitude = None, timezone = None \<rparr>],
       connected = True \<rparr> \<and>
   \<not> geo_complete (last (docs (fst (track_handler (Some country_only_reader) ''id1'' 5000
          empty_store geoReq)))) \<and>
   \<not> geo_absent (last (docs (fst (track_handler (Some country_only_reader) ''id1'' 5000
          empty_store geoReq))))"
proof -
  have l: "lookupIP (Some country_only_reader) (Some ''8.8.8.8'') =
      Inr (Some \<lparr> g_country = Some ''Germany'', g_countryCode = Some ''DE'', g_city = None,
             g_region = None, g_latitude = None, g_longitude = None, g_timezone = None \<rparr>)"
    using public_ip
    by (simp add: lookupIP_def lookupIP_try_def country_only_reader_def or_null_def
        or_null_num_def truthy_def)
  have b: "body geoReq = \<lparr> short_code = Some ''geoloc'', original_url = Some ''https://example.com/geo'' \<rparr>"
    and h: "hdr_user_agent (headers geoReq) = None" "hdr_referer (headers geoReq) = None"
    by (simp_all add: geoReq_def internalReq_def mockReq_def)
  have "fst (track_handler (Some country_only_reader) ''id1'' 5000 empty_store geoReq) =
     \<lparr> docs = [\<lparr> click_id = ''id1'', shortCode = ''geoloc'',
                 originalUrl = ''https://example.com/geo'', timestamp = 5000,
                 userAgent = None, referer = None, ipAddress = Some ''8.8.8.8'',
                 country = Some ''Germany'', countryCode = Some ''DE'', city = None,
                 region = None, latitude = None, longitude = None, timezone = None \<rparr>],
       connected = True \<rparr>"
    by (simp add: track_handler_def geoReq_ip l b h Let_def and_then_def save_def new_click_def
        empty_store_def or_default_def or_null_def or_null_num_def truthy_def)
  then show ?thesis
    by (simp add: geo_complete_def geo_absent_def)
qed

lemma track_geoReq_without_reader:
  "track_handler None ''id1'' 5000 empty_store geoReq =
     (empty_store\<lparr> docs := docs empty_store @
         [new_click ''id1'' 5000 geoReq (track_ipAddress geoReq) None] \<rparr>,
      \<lparr> status = 201, payload = TrackedBody ''Click tracked successfully'' ''id1'' \<rparr>)"
proof -
  have l: "lookupIP None (track_ipAddress geoReq) = Inr None"
    by (simp add: lookupIP_def)
  have b: "body geoReq =
      \<lparr> short_code = Some ''geoloc'', original_url = Some ''https://example.com/geo'' \<rparr>"
    by (simp add: geoReq_def internalReq_def mockReq_def)
  show ?thesis
    by (simp add: track_handler_def l b Let_def and_then_def save_def new_click_def
        empty_store_def or_default_def truthy_def)
qed

theorem track_geolocation_copied_witness:
  "\<exists>c. docs (fst (track_handler None ''id1'' 5000 empty_store geoReq)) = docs empty_store @ [c] \<and>
       geo_absent c"
proof -
  have l: "lookupIP None (track_ipAddress geoReq) = Inr None"
    by (simp add: lookupIP_def)
  have s: "status \<lparr> status = 201,
      payload = TrackedBody ''Click tracked successfully'' ''id1'' \<rparr> = 201"
    by simp
  show ?thesis
    using track_geolocation_copied[OF track_geoReq_without_reader s]
    by (simp add: l track_geoReq_without_reader)
qed

lemma trim_spaces_Nil: "trim_spaces [] = []"
  by (simp add: trim_spaces_def)

lemma forwarded_for_entries_Nil: "forwarded_for_entries [] = []"
  by (simp add: forwarded_for_entries_def trim_spaces_Nil)

lemma forwarded_for_entries_nonempty: "e \<in> set (forwarded_for_entries h) \<Longrightarrow> e \<noteq> []"
  by (simp add: forwarded_for_entries_def)

lemma forwarded_for_entries_first:
  assumes "trim_spaces (hd (split_on CHR '','' h)) \<noteq> []"
  shows "\<exists>es. forwarded_for_entries h = trim_spaces (hd (split_on CHR '','' h)) # es"
proof -
  obtain x xs where x: "split_on CHR '','' h = x # xs"
    using split_on_nonempty[of "CHR '',''" h] by (cases "split_on CHR '','' h") auto
  with assms show ?thesis by (simp add: forwarded_for_entries_def)
qed

lemma req_ip_forwarded:
  assumes "hdr_x_forwarded_for (headers req) = Some h" and "forwarded_for_entries h = e # es"
  shows "req_ip req = Some e"
proof -
  from assms(2) have "h \<noteq> []" using forwarded_for_entries_Nil by auto
  with assms show ?thesis by (simp add: req_ip_def or_default_def)
qed

lemma req_ip_peer:
  assumes "hdr_x_forwarded_for (headers req) = None \<or> hdr_x_forwarded_for (headers req) = Some []"
  shows "req_ip req = remoteAddress req"
  using assms by (auto simp: req_ip_def or_default_def forwarded_for_entries_Nil)

text \<open>
  Claim C5. The client address of a track request is the first entry of the
  forwarded-for header (the first comma-separated piece, without the spaces around it)
  when there is one, else the peer address of the connection, else null; and that is
  the address stored on the record.
\<close>

theorem track_ipAddress_resolution:
  "(\<forall>h. hdr_x_forwarded_for (headers req) = Some h \<and>
        trim_spaces (hd (split_on CHR '','' h)) \<noteq> [] \<longrightarrow>
      track_ipAddress req = Some (trim_spaces (hd (split_on CHR '','' h)))) \<and>
   (\<forall>h e es. hdr_x_forwarded_for (headers req) = Some h \<and> forwarded_for_entries h = e # es \<longrightarrow>
      track_ipAddress req = Some e) \<and>
   (\<forall>p. (hdr_x_forwarded_for (headers req) = None \<or>
         hdr_x_forwarded_for (headers req) = Some []) \<and>
        remoteAddress req = Some p \<and> p \<noteq> [] \<longrightarrow>
      track_ipAddress req = Some p) \<and>
   ((hdr_x_forwarded_for (headers req) = None \<or> hdr_x_forwarded_for (headers req) = Some []) \<and>
    (remoteAddress req = None \<or> remoteAddress req = Some []) \<longrightarrow>
      track_ipAddress req = None) \<and>
   (\<forall>st' r. track_handler reader new_id now st req = (st', r) \<and> status r = 201 \<longrightarrow>
      (\<exists>c. docs st' = docs st @ [c] \<and> ipAddress c = track_ipAddress req))"
proof -
  have fwd: "\<And>h e es. hdr_x_forwarded_for (headers req) = Some h \<Longrightarrow>
      forwarded_for_entries h = e # es \<Longrightarrow> track_ipAddress req = Some e"
  proof -
    fix h e es
    assume a: "hdr_x_forwarded_for (headers req) = Some h" "forwarded_for_entries h = e # es"
    then have "e \<noteq> []" using forwarded_for_entries_nonempty[of e h] by simp
    with req_ip_forwarded[OF a] show "track_ipAddress req = Some e"
      by (simp add: track_ipAddress_def truthy_def)
  qed
  have first: "\<And>h. hdr_x_forwarded_for (headers req) = Some h \<Longrightarrow>
      trim_spaces (hd (split_on CHR '','' h)) \<noteq> [] \<Longrightarrow>
      track_ipAddress req = Some (trim_spaces (hd (split_on CHR '','' h)))"
    using forwarded_for_entries_first fwd by blast
  have peer: "\<And>p. hdr_x_forwarded_for (headers req) = None \<or>
         hdr_x_forwarded_for (headers req) = Some [] \<Longrightarrow> remoteAddress req = Some p \<Longrightarrow>
         p \<noteq> [] \<Longrightarrow> track_ipAddress req = Some p"
    using req_ip_peer[of req] by (simp add: track_ipAddress_def truthy_def)
  have none: "hdr_x_forwarded_for (headers req) = None \<or>
         hdr_x_forwarded_for (headers req) = Some [] \<Longrightarrow>
         remoteAddress req = None \<or> remoteAddress req = Some [] \<Longrightarrow>
         track_ipAddress req = None"
    using req_ip_peer[of req]
    by (auto simp: track_ipAddress_def truthy_def or_null_def at_index_def)
  have stored: "\<And>st' r. track_handler reader new_id now st req = (st', r) \<Longrightarrow> status r = 201 \<Longrightarrow>
      \<exists>c. docs st' = docs st @ [c] \<and> ipAddress c = track_ipAddress req"
    using track_handler_created[of reader new_id now st req]
    by (fastforce simp: new_click_def)
  show ?thesis
    using first fwd peer none stored by blast
qed

theorem track_ipAddress_resolution_witness:
  "track_ipAddress fwdReq = Some ''8.8.8.8'' \<and>
   track_ipAddress peerReq = Some ''::ffff:127.0.0.1'' \<and>
   track_ipAddress mockReq = None \<and>
   (\<exists>c. docs (fst (track_handler None ''id1'' 5000 empty_store geoReq)) =
          docs empty_store @ [c] \<and> ipAddress c = Some ''8.8.8.8'')"
proof -
  have f: "hdr_x_forwarded_for (headers fwdReq) = Some ''8.8.8.8, 10.0.0.1''"
    by (simp add: fwdReq_def mockReq_def)
  have t: "trim_spaces (hd (split_on CHR '','' ''8.8.8.8, 10.0.0.1'')) = ''8.8.8.8''"
    by (simp add: trim_spaces_def)
  have p: "hdr_x_forwarded_for (headers peerReq) = None"
    "remoteAddress peerReq = Some ''::ffff:127.0.0.1''"
    by (simp_all add: peerReq_def mockReq_def)
  have m: "hdr_x_forwarded_for (headers mockReq) = None" "remoteAddress mockReq = None"
    by (simp_all add: mockReq_def)
  have ne: "trim_spaces (hd (split_on CHR '','' ''8.8.8.8, 10.0.0.1'')) \<noteq> []"
    unfolding t by simp
  have pn: "''::ffff:127.0.0.1'' \<noteq> []" by simp
  have s: "status \<lparr> status = 201,
      payload = TrackedBody ''Click tracked successfully'' ''id1'' \<rparr> = 201"
    by simp
  from track_ipAddress_resolution[of fwdReq None "''id1''" 5000 empty_store] f ne
  have 1: "track_ipAddress fwdReq =
      Some (trim_spaces (hd (split_on CHR '','' ''8.8.8.8, 10.0.0.1'')))"
    by blast
  from track_ipAddress_resolution[of peerReq None "''id1''" 5000 empty_store] p pn
  have 2: "track_ipAddress peerReq = Some ''::ffff:127.0.0.1''"
    by blast
  from track_ipAddress_resolution[of mockReq None "''id1''" 5000 empty_store] m
  have 3: "track_ipAddress mockReq = None"
    by blast
  from track_ipAddress_resolution[of geoReq None "''id1''" 5000 empty_store]
    track_geoReq_without_reader s
  have "\<exists>c. docs (empty_store\<lparr> docs := docs empty_store @
         [new_click ''id1'' 5000 geoReq (track_ipAddress geoReq) None] \<rparr>) =
           docs empty_store @ [c] \<and> ipAddress c = track_ipAddress geoReq"
    by blast
  then have 4: "\<exists>c. docs (fst (track_handler None ''id1'' 5000 empty_store geoReq)) =
      docs empty_store @ [c] \<and> ipAddress c = Some ''8.8.8.8''"
    by (simp add: track_geoReq_without_reader geoReq_ip)
  from 1 2 3 4 show ?thesis unfolding t by simp
qed

lemma show_octet_values:
  "show_octet 10 = ''10''" "show_octet 127 = ''127''" "show_octet 172 = ''172''"
  "show_octet 192 = ''192''" "show_octet 168 = ''168''"
  by (simp_all add: show_octet_def digit_char_def)

lemma re_172_second_octet:
  assumes "16 \<le> b" and "b \<le> 31"
  shows "re_172 (''172.'' @ show_octet b @ ''.'' @ rest)"
proof -
  from assms have "b = 16 \<or> b = 17 \<or> b = 18 \<or> b = 19 \<or> b = 20 \<or> b = 21 \<or> b = 22 \<or> b = 23 \<or>
             b = 24 \<or> b = 25 \<or> b = 26 \<or> b = 27 \<or> b = 28 \<or> b = 29 \<or> b = 30 \<or> b = 31"
    by arith
  then show ?thesis
    by (elim disjE) (simp_all add: re_172_def startsWith_def show_octet_def digit_char_def)
qed

lemma isPrivateIP_ipv4:
  assumes "private_or_loopback_ipv4 a b"
  shows "isPrivateIP (Some (dotted_quad a b c d))"
proof -
  have ne: "dotted_quad a b c d \<noteq> []"
    by (simp add: dotted_quad_def)
  from assms consider "a = 10" | "a = 172" "16 \<le> b" "b \<le> 31" | "a = 192" "b = 168" | "a = 127"
    by (auto simp: private_or_loopback_ipv4_def)
  then have "re_10 (dotted_quad a b c d) \<or> re_172 (dotted_quad a b c d) \<or>
             re_192_168 (dotted_quad a b c d) \<or> re_127 (dotted_quad a b c d)"
  proof cases
    case 1
    then show ?thesis by (simp add: re_10_def dotted_quad_def show_octet_values startsWith_def)
  next
    case 2
    then show ?thesis
      using re_172_second_octet[of b "show_octet c @ ''.'' @ show_octet d"]
      by (simp add: dotted_quad_def show_octet_values)
  next
    case 3
    then show ?thesis
      by (simp add: re_192_168_def dotted_quad_def show_octet_values startsWith_def)
  next
    case 4
    then show ?thesis by (simp add: re_127_def dotted_quad_def show_octet_values startsWith_def)
  qed
  with ne show ?thesis
    by (auto simp: isPrivateIP_def privateRanges_def)
qed

lemma lookupIP_private: "isPrivateIP ip \<Longrightarrow> lookupIP reader ip = Inr None"
  by (auto simp: lookupIP_def split: option.splits)

text \<open>
  Claim C7, as the code has it. \<open>lookupIP\<close> never raises: it always returns. It returns
  null when the address is null or empty; when it is written in a form the patterns of
  \<open>isPrivateIP\<close> match: a dotted quad in 10/8, 172.16/12, 192.168/16 or 127/8,
  "localhost" in any case, the IPv6 loopback written "::1", or an address starting
  with "fe80:" in any case; when no database is loaded; and when the database lookup
  throws (the address is not in the database). Every other address, a private or
  loopback address in another spelling included, is answered from the database.
\<close>

theorem lookupIP_never_raises:
  "(\<exists>r. lookupIP reader ip = Inr r) \<and>
   (ip = None \<or> ip = Some [] \<longrightarrow> lookupIP reader ip = Inr None) \<and>
   (\<forall>a b c d. private_or_loopback_ipv4 a b \<longrightarrow>
      lookupIP reader (Some (dotted_quad a b c d)) = Inr None) \<and>
   (\<forall>s. toLowerCase s = ''localhost'' \<longrightarrow> lookupIP reader (Some s) = Inr None) \<and>
   lookupIP reader (Some ''::1'') = Inr None \<and>
   (\<forall>s. startsWith (toLowerCase s) ''fe80:'' \<longrightarrow> lookupIP reader (Some s) = Inr None) \<and>
   (reader = None \<longrightarrow> lookupIP reader ip = Inr None) \<and>
   (\<forall>city_fn a e. reader = Some city_fn \<and> ip = Some a \<and> city_fn a = Inl e \<longrightarrow>
      lookupIP reader ip = Inr None) \<and>
   (\<forall>city_fn a response. reader = Some city_fn \<and> ip = Some a \<and> a \<noteq> [] \<and>
      \<not> isPrivateIP (Some a) \<and> city_fn a = Inr response \<longrightarrow>
      lookupIP reader ip =
        Inr (Some \<lparr> g_country = or_null (country_names_en response),
                    g_countryCode = or_null (country_isoCode response),
                    g_city = or_null (city_names_en response),
                    g_region = or_null (subdivision0_names_en response),
                    g_latitude = or_null_num (location_latitude response),
                    g_longitude = or_null_num (location_longitude response),
                    g_timezone = or_null (location_timeZone response) \<rparr>))"
proof -
  have nul: "ip = None \<or> ip = Some [] \<Longrightarrow> lookupIP reader ip = Inr None"
    by (auto simp: lookupIP_def split: option.splits)
  have v4: "\<And>a b c d. private_or_loopback_ipv4 a b \<Longrightarrow>
      lookupIP reader (Some (dotted_quad a b c d)) = Inr None"
    by (rule lookupIP_private, rule isPrivateIP_ipv4)
  have lh: "\<And>s. toLowerCase s = ''localhost'' \<Longrightarrow> lookupIP reader (Some s) = Inr None"
    by (rule lookupIP_private)
       (auto simp: isPrivateIP_def privateRanges_def re_localhost_def)
  have lo: "lookupIP reader (Some ''::1'') = Inr None"
    by (rule lookupIP_private)
       (simp add: isPrivateIP_def privateRanges_def re_loopback6_def)
  have ll: "\<And>s. startsWith (toLowerCase s) ''fe80:'' \<Longrightarrow> lookupIP reader (Some s) = Inr None"
    by (rule lookupIP_private)
       (auto simp: isPrivateIP_def privateRanges_def re_fe80_def)
  have dis: "reader = None \<Longrightarrow> lookupIP reader ip = Inr None"
    by (simp add: lookupIP_def)
  have miss: "\<And>city_fn a e. reader = Some city_fn \<Longrightarrow> ip = Some a \<Longrightarrow> city_fn a = Inl e \<Longrightarrow>
      lookupIP reader ip = Inr None"
    by (simp add: lookupIP_def lookupIP_try_def)
  have hit: "\<And>city_fn a response. reader = Some city_fn \<Longrightarrow> ip = Some a \<Longrightarrow> a \<noteq> [] \<Longrightarrow>
      \<not> isPrivateIP (Some a) \<Longrightarrow> city_fn a = Inr response \<Longrightarrow>
      lookupIP reader ip =
        Inr (Some \<lparr> g_country = or_null (country_names_en response),
                    g_countryCode = or_null (country_isoCode response),
                    g_city = or_null (city_names_en response),
                    g_region = or_null (subdivision0_names_en response),
                    g_latitude = or_null_num (location_latitude response),
                    g_longitude = or_null_num (location_longitude response),
                    g_timezone = or_null (location_timeZone response) \<rparr>)"
    by (simp add: lookupIP_def lookupIP_try_def)
  show ?thesis
    using lookupIP_total[of reader ip] nul v4 lh lo ll dis miss hit by blast
qed

text \<open>
  Claim C7 as stated fails: the loopback address in the IPv4-mapped form Node reports
  for a local peer, the IPv6 loopback written out in full, and a link-local address
  outside the \<open>fe80:\<close> spelling are all looked up in the database, and a database that
  has an entry for them gets its location back.
\<close>

theorem lookupIP_other_spelling_counterexample:
  "lookupIP (Some test_reader) (Some ''::ffff:127.0.0.1'') = Inr (Some test_location) \<and>
   lookupIP (Some test_reader) (Some ''0:0:0:0:0:0:0:1'') = Inr (Some test_location) \<and>
   lookupIP (Some test_reader) (Some ''febf::1'') = Inr (Some test_location)"
proof -
  have p: "\<not> isPrivateIP (Some ''::ffff:127.0.0.1'')"
    "\<not> isPrivateIP (Some ''0:0:0:0:0:0:0:1'')" "\<not> isPrivateIP (Some ''febf::1'')"
    by (simp_all add: isPrivateIP_def privateRanges_def re_10_def re_172_def re_192_168_def
        re_127_def re_localhost_def re_loopback6_def re_fe80_def startsWith_def toLowerCase_def
        ascii_lower_def)
  show ?thesis
    using p
    by (simp add: lookupIP_def lookupIP_try_def test_reader_def test_location_def or_null_def
        or_null_num_def truthy_def)
qed

theorem lookupIP_never_raises_witness:
  "lookupIP (Some test_reader) None = Inr None \<and>
   lookupIP (Some test_reader) (Some ''10.1.2.3'') = Inr None \<and>
   lookupIP (Some test_reader) (Some ''172.20.0.1'') = Inr None \<and>
   lookupIP (Some test_reader) (Some ''192.168.1.1'') = Inr None \<and>
   lookupIP (Some test_reader) (Some ''127.0.0.1'') = Inr None \<and>
   lookupIP (Some test_reader) (Some ''LocalHost'') = Inr None \<and>
   lookupIP (Some test_reader) (Some ''::1'') = Inr None \<and>
   lookupIP (Some test_reader) (Some ''FE80::1'') = Inr None \<and>
   lookupIP None (Some ''8.8.8.8'') = Inr None \<and>
   lookupIP (Some not_found_reader) (Some ''8.8.8.8'') = Inr None \<and>
   lookupIP (Some test_reader) (Some ''8.8.8.8'') = Inr (Some test_location)"
proof -
  have q: "dotted_quad 10 1 2 3 = ''10.1.2.3''" "dotted_quad 172 20 0 1 = ''172.20.0.1''"
    "dotted_quad 192 168 1 1 = ''192.168.1.1''" "dotted_quad 127 0 0 1 = ''127.0.0.1''"
    by (simp_all add: dotted_quad_def show_octet_def digit_char_def)
  have r: "private_or_loopback_ipv4 10 1" "private_or_loopback_ipv4 172 20"
    "private_or_loopback_ipv4 192 168" "private_or_loopback_ipv4 127 0"
    by (simp_all add: private_or_loopback_ipv4_def)
  have l: "toLowerCase ''LocalHost'' = ''localhost''" by code_simp
  have f: "startsWith (toLowerCase ''FE80::1'') ''fe80:''" by code_simp
  have n: "not_found_reader ''8.8.8.8'' =
      Inl (JsError ''AddressNotFoundError'' ''The address is not in the database'')"
    by (simp add: not_found_reader_def)
  note t = lookupIP_never_raises[of "Some test_reader" None]
  from t have 1: "lookupIP (Some test_reader) None = Inr None" by blast
  from t r(1) have 2: "lookupIP (Some test_reader) (Some (dotted_quad 10 1 2 3)) = Inr None"
    by blast
  from t r(2) have 3: "lookupIP (Some test_reader) (Some (dotted_quad 172 20 0 1)) = Inr None"
    by blast
  from t r(3) have 4: "lookupIP (Some test_reader) (Some (dotted_quad 192 168 1 1)) = Inr None"
    by blast
  from t r(4) have 5: "lookupIP (Some test_reader) (Some (dotted_quad 127 0 0 1)) = Inr None"
    by blast
  from t l have 6: "lookupIP (Some test_reader) (Some ''LocalHost'') = Inr None" by blast
  from t have 7: "lookupIP (Some test_reader) (Some ''::1'') = Inr None" by blast
  from t f have 8: "lookupIP (Some test_reader) (Some ''FE80::1'') = Inr None" by blast
  from lookupIP_never_raises[of None "Some ''8.8.8.8''"]
  have 9: "lookupIP None (Some ''8.8.8.8'') = Inr None" by blast
  from lookupIP_never_raises[of "Some not_found_reader" "Some ''8.8.8.8''"] n
  have 10: "lookupIP (Some not_found_reader) (Some ''8.8.8.8'') = Inr None" by blast
  have g: "test_reader ''8.8.8.8'' =
      Inr \<lparr> country_names_en = Some ''United States'', country_isoCode = Some ''US'',
            city_names_en = Some ''New York'', subdivision0_names_en = Some ''NY'',
            location_latitude = Some 40.7128, location_longitude = Some (- 74.006),
            location_timeZone = Some ''America/New_York'' \<rparr>"
    by (simp add: test_reader_def)
  have ne: "''8.8.8.8'' \<noteq> []" by simp
  from lookupIP_never_raises[of "Some test_reader" "Some ''8.8.8.8''"] g ne public_ip
  have "lookupIP (Some test_reader) (Some ''8.8.8.8'') =
      Inr (Some \<lparr> g_country = or_null (Some ''United States''),
                  g_countryCode = or_null (Some ''US''), g_city = or_null (Some ''New York''),
                  g_region = or_null (Some ''NY''), g_latitude = or_null_num (Some 40.7128),
                  g_longitude = or_null_num (Some (- 74.006)),
                  g_timezone = or_null (Some ''America/New_York'') \<rparr>)"
    by auto
  then have 11: "lookupIP (Some test_reader) (Some ''8.8.8.8'') = Inr (Some test_location)"
    by (simp add: test_location_def or_null_def or_null_num_def truthy_def)
  from 1 2 3 4 5 6 7 8 9 10 11 show ?thesis unfolding q by simp
qed

end
